theory Spec2Isabelle
  imports Complex_Main "HOL-Library.Log_Nat"
begin

section \<open>The backtest engine of \<^verbatim>\<open>backtest.py\<close>\<close>

text \<open>
  The embedding follows \<^verbatim>\<open>src/services/trading-engine/backtest/backtest.py\<close>.
  Conventions:
  \<^item> a finite float64 is the \<open>real\<close> it denotes. The arithmetic of \<open>run_simulation\<close>
    (\<open>price - entry_price\<close>, \<open>pnl * STAKE_AMOUNT\<close>, \<open>self.balance += ...\<close>) is float64
    arithmetic: the exact result rounded to the nearest float64, ties to even
    (\<open>fsub\<close>, \<open>fmul\<close>, \<open>fadd\<close>), and so is \<open>wins / total_trades * 100\<close> in
    \<open>generate_report\<close> (\<open>fdiv\<close>, \<open>fmul\<close>). Overflow to infinity and prices that are
    NaN or infinite are not modelled;
  \<^item> a cell of an indicator column is a \<open>real option\<close>, \<open>None\<close> being the NaN that
    the indicator library writes into the warm-up window; a comparison with NaN is
    false in Python, which \<open>float_lt\<close> and \<open>float_gt\<close> write out;
  \<^item> a pandas timestamp is an \<open>int\<close>, and \<open>str(index)\<close> is represented by the
    timestamp itself;
  \<^item> an exception is a value of \<open>py_exception\<close>, and a function that can raise returns
    either its value or the exception together with the balance and the journal that
    \<open>self\<close> has when the exception leaves the function;
  \<^item> the functions of the third-party indicator library (\<open>talib.SMA\<close>, \<open>talib.RSI\<close>)
    and the file reader (\<open>pd.read_csv\<close> with the two statements after it) are
    parameters of the functions that call them.
\<close>

subsection \<open>Float64 arithmetic\<close>

text \<open>
  Rounding a real to an integer, ties to the even one; the binary exponent of a real
  that is not zero, \<open>\<lfloor>log\<^sub>2 \<bar>x\<bar>\<rfloor>\<close>; the distance between neighbouring float64 values
  around \<open>x\<close>, with 53 significant bits and the smallest exponent \<open>- 1022\<close>; and the
  float64 nearest to a real.
\<close>

definition round_half_even :: "real \<Rightarrow> int" where
  "round_half_even y =
     (let f = \<lfloor>y\<rfloor>; d = y - of_int f
      in if d < 1 / 2 then f else if d > 1 / 2 then f + 1 else if even f then f else f + 1)"

definition exponent :: "real \<Rightarrow> int" where
  "exponent x =
     (if 1 \<le> \<bar>x\<bar> then bitlen \<lfloor>\<bar>x\<bar>\<rfloor> - 1 else - bitlen (\<lceil>1 / \<bar>x\<bar>\<rceil> - 1))"

definition ulp :: "real \<Rightarrow> real" where
  "ulp x =
     (let e = max (exponent x) (- 1022) - 52
      in if 0 \<le> e then 2 ^ nat e else 1 / 2 ^ nat (- e))"

definition round64 :: "real \<Rightarrow> real" where
  "round64 x = (if x = 0 then 0 else of_int (round_half_even (x / ulp x)) * ulp x)"

text \<open>
  The operators \<open>+\<close>, \<open>-\<close> and \<open>*\<close> of Python on floats, and \<open>/\<close> on two integers,
  which gives the float64 nearest to the quotient.
\<close>

definition fadd :: "real \<Rightarrow> real \<Rightarrow> real" where
  "fadd x y = round64 (x + y)"

definition fsub :: "real \<Rightarrow> real \<Rightarrow> real" where
  "fsub x y = round64 (x - y)"

definition fmul :: "real \<Rightarrow> real \<Rightarrow> real" where
  "fmul x y = round64 (x * y)"

definition fdiv :: "real \<Rightarrow> real \<Rightarrow> real" where
  "fdiv x y = round64 (x / y)"

text \<open>The float64 that is read from a decimal numeral of the file, as \<open>float('92.69')\<close>.\<close>

definition float64 :: "real \<Rightarrow> real" where
  "float64 x = round64 x"

subsection \<open>Configuration and data\<close>

definition INITIAL_BALANCE :: real where
  "INITIAL_BALANCE = 10000"

definition STAKE_AMOUNT :: real where
  "STAKE_AMOUNT = 10"

text \<open>A line of the CSV file once loaded: the index \<open>time\<close> and the column \<open>price\<close>.\<close>

record tick =
  time :: int
  price :: real

text \<open>A line of the data frame once \<open>add_indicators\<close> has added its two columns.\<close>

record row = tick +
  sma_14 :: "real option"
  rsi_14 :: "real option"

text \<open>
  \<open>self.df\<close> is a frame with a numeric column \<open>price\<close>, without the indicator columns
  (\<open>Ticks\<close>) or with them (\<open>Rows\<close>); or a frame that has no column \<open>price\<close>, of which
  only the index is kept (\<open>NoPrice\<close>); or a frame whose column \<open>price\<close> is not numeric,
  with the text of its cells (\<open>TextPrice\<close>). \<open>load_data\<close> accepts all of them: it reads
  the column \<open>time\<close> only.
\<close>

datatype frame =
    Ticks "tick list"
  | Rows "row list"
  | NoPrice "int list"
  | TextPrice "(int \<times> string) list"

text \<open>
  The dictionaries appended to \<open>self.trades\<close>:
  \<open>{'type': 'BUY', 'price', 'time'}\<close> and
  \<open>{'type': 'SELL', 'price', 'time', 'pnl', 'balance'}\<close>.
\<close>

datatype trade =
    BUY real int
  | SELL real int real real

fun is_BUY :: "trade \<Rightarrow> bool" where
  "is_BUY (BUY p t) = True"
| "is_BUY (SELL p t n b) = False"

fun is_SELL :: "trade \<Rightarrow> bool" where
  "is_SELL (BUY p t) = False"
| "is_SELL (SELL p t n b) = True"

text \<open>\<open>t.get('pnl', 0)\<close>: a BUY dictionary has no key \<open>'pnl'\<close>.\<close>

fun get_pnl :: "trade \<Rightarrow> real" where
  "get_pnl (BUY p t) = 0"
| "get_pnl (SELL p t n b) = n"

text \<open>
  The exceptions. \<open>SystemExit\<close> and \<open>KeyboardInterrupt\<close> derive from \<open>BaseException\<close>
  only, so that \<open>except Exception\<close> does not catch them; all the others derive from
  \<open>Exception\<close>. \<open>Raised name\<close> is any other class that derives from \<open>Exception\<close>, by its
  name; \<open>DataSourceError\<close> is the class the specification names, which the source
  never raises.
\<close>

datatype py_exception =
    SystemExit int
  | KeyboardInterrupt
  | AttributeError
  | KeyError string
  | ValueError
  | TypeError
  | Raised string

fun is_Exception :: "py_exception \<Rightarrow> bool" where
  "is_Exception (SystemExit n) = False"
| "is_Exception KeyboardInterrupt = False"
| "is_Exception AttributeError = True"
| "is_Exception (KeyError k) = True"
| "is_Exception ValueError = True"
| "is_Exception TypeError = True"
| "is_Exception (Raised name) = True"

definition DataSourceError :: py_exception where
  "DataSourceError = Raised ''DataSourceError''"

text \<open>
  The object \<open>self\<close>. The field \<open>positions\<close> is set to the empty list by the
  constructor and never read or written again; it is left out.
\<close>

record engine =
  data_path :: string
  balance :: real
  trades :: "trade list"
  df :: "frame option"

definition BacktestEngine :: "string \<Rightarrow> engine" where
  "BacktestEngine path =
     \<lparr>data_path = path, balance = INITIAL_BALANCE, trades = [], df = None\<rparr>"

text \<open>
  What a method gives: its value, or the exception that leaves it with the balance
  and the journal of \<open>self\<close> at that moment.
\<close>

type_synonym account = "real \<times> trade list"

definition account_of :: "engine \<Rightarrow> account" where
  "account_of e = (balance e, trades e)"

type_synonym 'a result = "(py_exception \<times> account) + 'a"

subsection \<open>\<open>load_data\<close>\<close>

text \<open>
  The three statements inside \<open>try\<close> read the file, parse the column \<open>time\<close> and make
  it the index; \<open>read_csv\<close> stands for them: the frame of the file at a path, or the
  exception they raise. The handler catches what derives from \<open>Exception\<close>, prints it
  and calls \<open>sys.exit(1)\<close>; any other exception passes through.
\<close>

type_synonym read_csv = "string \<Rightarrow> py_exception + frame"

definition load_data :: "read_csv \<Rightarrow> engine \<Rightarrow> engine result" where
  "load_data read e =
     (case read (data_path e) of
        Inl ex \<Rightarrow>
          (if is_Exception ex then Inl (SystemExit 1, account_of e)
           else Inl (ex, account_of e))
      | Inr fr \<Rightarrow> Inr (e\<lparr>df := Some fr\<rparr>))"

subsection \<open>\<open>add_indicators\<close>\<close>

text \<open>
  An indicator function of the library: prices and \<open>timeperiod\<close> to a column. It is a
  total function on float64 arrays: an exception raised inside the library on such an
  array is not modelled.
\<close>

type_synonym indicator = "real list \<Rightarrow> nat \<Rightarrow> real option list"

text \<open>
  \<open>self.df['price'].values\<close> handed to the library: \<open>KeyError\<close> when the frame has no
  column \<open>price\<close>, and the library refuses an array that is not float64, which is
  written \<open>TypeError\<close>.
\<close>

fun frame_ticks :: "frame \<Rightarrow> py_exception + tick list" where
  "frame_ticks (Ticks ts) = Inr ts"
| "frame_ticks (Rows rs) = Inr (map (\<lambda>r. \<lparr>time = time r, price = price r\<rparr>) rs)"
| "frame_ticks (NoPrice idx) = Inl (KeyError ''price'')"
| "frame_ticks (TextPrice cells) = Inl TypeError"

definition with_columns :: "tick list \<Rightarrow> real option list \<Rightarrow> real option list \<Rightarrow> row list" where
  "with_columns ts sma rsi =
     map (\<lambda>(t, s, r). \<lparr>time = time t, price = price t, sma_14 = s, rsi_14 = r\<rparr>)
       (zip ts (zip sma rsi))"

text \<open>
  Assigning a column whose length is not the length of the index raises \<open>ValueError\<close>
  in pandas.
\<close>

definition add_indicators :: "indicator \<Rightarrow> indicator \<Rightarrow> engine \<Rightarrow> engine result" where
  "add_indicators SMA RSI e =
     (case df e of
        None \<Rightarrow> Inr e
      | Some fr \<Rightarrow>
          (case frame_ticks fr of
             Inl ex \<Rightarrow> Inl (ex, account_of e)
           | Inr ts \<Rightarrow>
               (let prices = map price ts;
                    sma = SMA prices 14;
                    rsi = RSI prices 14
                in if length sma = length ts \<and> length rsi = length ts
                   then Inr (e\<lparr>df := Some (Rows (with_columns ts sma rsi))\<rparr>)
                   else Inl (ValueError, account_of e))))"

subsection \<open>\<open>run_simulation\<close>\<close>

text \<open>\<open>rsi < 30\<close> and \<open>rsi > 70\<close> on a float that may be NaN.\<close>

fun float_lt :: "real option \<Rightarrow> real \<Rightarrow> bool" where
  "float_lt None y = False"
| "float_lt (Some x) y = (x < y)"

fun float_gt :: "real option \<Rightarrow> real \<Rightarrow> bool" where
  "float_gt None y = False"
| "float_gt (Some x) y = (x > y)"

text \<open>
  The state of the loop: \<open>self\<close> and the three local variables of \<open>run_simulation\<close>.
\<close>

record sim = engine +
  in_position :: bool
  entry_price :: real
  entry_time :: "int option"

text \<open>
  The body of the \<open>for\<close> loop, for one row. The source computes \<open>pnl * STAKE_AMOUNT\<close>
  twice, for the balance and for the journal; it is the same float64.
\<close>

definition step :: "row \<Rightarrow> sim \<Rightarrow> sim" where
  "step r s =
     (let price = price r; rsi = rsi_14 r in
      if \<not> in_position s \<and> float_lt rsi 30 then
        s\<lparr>entry_price := price,
          entry_time := Some (time r),
          in_position := True,
          trades := trades s @ [BUY price (time r)]\<rparr>
      else if in_position s \<and> float_gt rsi 70 then
        (let pnl = fsub price (entry_price s);
             balance' = fadd (balance s) (fmul pnl STAKE_AMOUNT)
         in s\<lparr>balance := balance',
              in_position := False,
              trades := trades s @ [SELL price (time r) (fmul pnl STAKE_AMOUNT) balance']\<rparr>)
      else s)"

primrec run_loop :: "row list \<Rightarrow> sim \<Rightarrow> sim" where
  "run_loop [] s = s"
| "run_loop (r # rs) s = run_loop rs (step r s)"

text \<open>The state on entry to the loop, and \<open>self\<close> when the function returns.\<close>

definition enter :: "engine \<Rightarrow> sim" where
  "enter e =
     \<lparr>data_path = data_path e, balance = balance e, trades = trades e, df = df e,
      in_position = False, entry_price = 0, entry_time = None\<rparr>"

definition self_of :: "sim \<Rightarrow> engine" where
  "self_of s =
     \<lparr>data_path = data_path s, balance = balance s, trades = trades s, df = df s\<rparr>"

text \<open>
  \<open>self.df.iterrows()\<close> raises \<open>AttributeError\<close> when \<open>self.df\<close> is \<open>None\<close>. On the
  first row of a frame that lacks a column, \<open>row['price']\<close> or \<open>row['rsi_14']\<close> raises
  \<open>KeyError\<close>, before anything is written; a frame with no row is not read at all.
\<close>

definition run_simulation :: "engine \<Rightarrow> engine result" where
  "run_simulation e =
     (case df e of
        None \<Rightarrow> Inl (AttributeError, account_of e)
      | Some (Ticks ts) \<Rightarrow>
          (if ts = [] then Inr e else Inl (KeyError ''rsi_14'', account_of e))
      | Some (Rows rs) \<Rightarrow> Inr (self_of (run_loop rs (enter e)))
      | Some (NoPrice idx) \<Rightarrow>
          (if idx = [] then Inr e else Inl (KeyError ''price'', account_of e))
      | Some (TextPrice cells) \<Rightarrow>
          (if cells = [] then Inr e else Inl (KeyError ''rsi_14'', account_of e)))"

subsection \<open>\<open>generate_report\<close>\<close>

record report =
  initial_balance :: real
  final_balance :: real
  total_trades :: nat
  win_rate :: real
  report_trades :: "trade list"

definition generate_report :: "engine \<Rightarrow> report" where
  "generate_report e =
     (let total_trades = length (filter is_SELL (trades e));
          wins = length (filter (\<lambda>t. get_pnl t > 0) (trades e))
      in \<lparr>initial_balance = INITIAL_BALANCE,
          final_balance = balance e,
          total_trades = total_trades,
          win_rate =
            (if total_trades > 0 then fmul (fdiv (real wins) (real total_trades)) 100 else 0),
          report_trades = trades e\<rparr>)"

subsection \<open>The script\<close>

text \<open>
  The four calls of the \<open>__main__\<close> block on a given path; an exception that leaves a
  call ends the run.
\<close>

definition main :: "read_csv \<Rightarrow> indicator \<Rightarrow> indicator \<Rightarrow> string \<Rightarrow> report result" where
  "main read SMA RSI path =
     (case load_data read (BacktestEngine path) of
        Inl ex \<Rightarrow> Inl ex
      | Inr e1 \<Rightarrow>
          (case add_indicators SMA RSI e1 of
             Inl ex \<Rightarrow> Inl ex
           | Inr e2 \<Rightarrow>
               (case run_simulation e2 of
                  Inl ex \<Rightarrow> Inl ex
                | Inr e3 \<Rightarrow> Inr (generate_report e3))))"

subsection \<open>The indicators\<close>

text \<open>
  Modelled from the spec: \<open>talib.SMA\<close> and \<open>talib.RSI\<close>, the functions of the third-party
  indicator library that \<open>add_indicators\<close> calls; their code is not part of the source
  file. \<open>computeSMA\<close> and \<open>computeRSI\<close> follow section 4.1 of the specification: the
  sliding-window mean, undefined before index \<open>period - 1\<close>, and Wilder's smoothed
  relative-strength index, undefined before index \<open>period\<close>, seeded at index \<open>period\<close>
  with the simple means of the first \<open>period\<close> gains and losses, with the two edge cases
  of a zero average loss.
\<close>

definition computeSMA :: indicator where
  "computeSMA prices period =
     map (\<lambda>i. if i + 1 < period then None
               else Some (sum_list (take period (drop (i + 1 - period) prices)) / real period))
       [0..<length prices]"

text \<open>Modelled from the spec: the price changes \<open>prices[i] - prices[i-1]\<close> for \<open>i \<ge> 1\<close>.\<close>

fun deltas :: "real list \<Rightarrow> real list" where
  "deltas (a # b # xs) = (b - a) # deltas (b # xs)"
| "deltas [a] = []"
| "deltas [] = []"

text \<open>Modelled from the spec: the gain and the loss of a price change.\<close>

definition gain :: "real \<Rightarrow> real" where
  "gain d = max d 0"

definition loss :: "real \<Rightarrow> real" where
  "loss d = max (- d) 0"

text \<open>Modelled from the spec: the index from the two averages, steps 5 and 6.\<close>

definition rsi_of :: "real \<Rightarrow> real \<Rightarrow> real" where
  "rsi_of avg_gain avg_loss =
     (if avg_loss = 0 \<and> avg_gain > 0 then 100
      else if avg_loss = 0 \<and> avg_gain = 0 then 50
      else 100 - 100 / (1 + avg_gain / avg_loss))"

text \<open>Modelled from the spec: Wilder smoothing over the changes after index \<open>period\<close>.\<close>

fun smooth :: "nat \<Rightarrow> real \<Rightarrow> real \<Rightarrow> real list \<Rightarrow> real option list" where
  "smooth period avg_gain avg_loss [] = []"
| "smooth period avg_gain avg_loss (d # ds) =
     (let avg_gain' = (avg_gain * real (period - 1) + gain d) / real period;
          avg_loss' = (avg_loss * real (period - 1) + loss d) / real period
      in Some (rsi_of avg_gain' avg_loss') # smooth period avg_gain' avg_loss' ds)"

definition computeRSI :: indicator where
  "computeRSI prices period =
     (if length prices \<le> period then replicate (length prices) None
      else
        (let ds = deltas prices;
             avg_gain = sum_list (map gain (take period ds)) / real period;
             avg_loss = sum_list (map loss (take period ds)) / real period
         in replicate period None @
            Some (rsi_of avg_gain avg_loss) # smooth period avg_gain avg_loss (drop period ds)))"

subsection \<open>Notions used in the statements\<close>

text \<open>
  The engine as the script hands it to \<open>run_simulation\<close>: freshly constructed, with a
  frame of rows; and the state in which the loop over these rows ends.
\<close>

definition loaded :: "string \<Rightarrow> row list \<Rightarrow> engine" where
  "loaded path rs = (BacktestEngine path)\<lparr>df := Some (Rows rs)\<rparr>"

definition run :: "string \<Rightarrow> row list \<Rightarrow> sim" where
  "run path rs = run_loop rs (enter (loaded path rs))"

text \<open>\<open>t.get('balance')\<close>: only a SELL dictionary has the key.\<close>

fun sell_balance :: "trade \<Rightarrow> real option" where
  "sell_balance (BUY p t) = None"
| "sell_balance (SELL p t n b) = Some b"

text \<open>The balance recorded by the last SELL of a journal, \<open>b\<close> when it has none.\<close>

fun last_balance :: "real \<Rightarrow> trade list \<Rightarrow> real" where
  "last_balance b [] = b"
| "last_balance b (BUY p t # ts) = last_balance b ts"
| "last_balance b (SELL p t n b' # ts) = last_balance b' ts"

text \<open>
  The \<open>pnl\<close> fields of the SELL events of a journal, in the order of the journal; and
  the balance \<open>b\<close> with these added to it one after the other by float64 additions,
  \<open>((b + pnl\<^sub>1) + pnl\<^sub>2) + ...\<close>, as \<open>self.balance += ...\<close> does.
\<close>

definition pnls :: "trade list \<Rightarrow> real list" where
  "pnls ts = map get_pnl (filter is_SELL ts)"

definition accumulated :: "real \<Rightarrow> trade list \<Rightarrow> real" where
  "accumulated b ts = foldl fadd b (pnls ts)"

text \<open>
  The two invariants of the loop. The journal has a BUY at every even index and a SELL
  at every odd one, and a position is open exactly when its length is odd. The balance
  is the initial balance with the profits accumulated, and every SELL recorded the
  balance it produced.
\<close>

definition parity_inv :: "sim \<Rightarrow> bool" where
  "parity_inv s \<longleftrightarrow>
     in_position s = odd (length (trades s)) \<and>
     (\<forall>i < length (trades s). is_BUY (trades s ! i) = even i)"

definition balance_inv :: "sim \<Rightarrow> bool" where
  "balance_inv s \<longleftrightarrow>
     balance s = accumulated INITIAL_BALANCE (trades s) \<and>
     balance s = last_balance INITIAL_BALANCE (trades s) \<and>
     (\<forall>i < length (trades s). is_SELL (trades s ! i) \<longrightarrow>
        sell_balance (trades s ! i) =
          Some (fadd (last_balance INITIAL_BALANCE (take i (trades s)))
                  (get_pnl (trades s ! i)))) \<and>
     (\<forall>i < length (trades s). is_SELL (trades s ! i) \<longrightarrow>
        sell_balance (trades s ! i) =
          Some (accumulated INITIAL_BALANCE (take (Suc i) (trades s))))"

text \<open>
  On ticks that all have the price \<open>c\<close>: the balance has not moved, and an open position
  was entered at \<open>c\<close>.
\<close>

definition flat_inv :: "real \<Rightarrow> sim \<Rightarrow> bool" where
  "flat_inv c s \<longleftrightarrow> balance s = INITIAL_BALANCE \<and> (in_position s \<longrightarrow> entry_price s = c)"

text \<open>The report of a run that never trades.\<close>

definition idle_report :: report where
  "idle_report =
     \<lparr>initial_balance = INITIAL_BALANCE, final_balance = INITIAL_BALANCE, total_trades = 0,
      win_rate = 0, report_trades = []\<rparr>"

subsection \<open>Small runs\<close>

text \<open>
  Four ticks: a warm-up tick, an entry at 100, an exit at 103 and a second entry at 101
  that stays open. A fifth row, \<open>exit_row\<close>, would close it at 105.
\<close>

definition example_ticks :: "tick list" where
  "example_ticks =
     [\<lparr>time = 0, price = 100\<rparr>, \<lparr>time = 1, price = 100\<rparr>,
      \<lparr>time = 2, price = 103\<rparr>, \<lparr>time = 3, price = 101\<rparr>]"

definition example_read :: read_csv where
  "example_read path = Inr (Ticks example_ticks)"

definition example_SMA :: indicator where
  "example_SMA prices period = [None, Some 100, Some 101, Some 101]"

definition example_RSI :: indicator where
  "example_RSI prices period = [None, Some 20, Some 80, Some 25]"

definition example_rows :: "row list" where
  "example_rows =
     [\<lparr>time = 0, price = 100, sma_14 = None, rsi_14 = None\<rparr>,
      \<lparr>time = 1, price = 100, sma_14 = Some 100, rsi_14 = Some 20\<rparr>,
      \<lparr>time = 2, price = 103, sma_14 = Some 101, rsi_14 = Some 80\<rparr>,
      \<lparr>time = 3, price = 101, sma_14 = Some 101, rsi_14 = Some 25\<rparr>]"

definition exit_row :: row where
  "exit_row = \<lparr>time = 4, price = 105, sma_14 = Some 102, rsi_14 = Some 75\<rparr>"

definition example_journal :: "trade list" where
  "example_journal = [BUY 100 1, SELL 103 2 30 10030, BUY 101 3]"

definition example_report :: report where
  "example_report =
     \<lparr>initial_balance = 10000, final_balance = 10030, total_trades = 1, win_rate = 100,
      report_trades = example_journal\<rparr>"

text \<open>
  Four ticks at the prices 92.69, 106.95, 105.28 and 95.1, as float64: an entry, an
  exit, an entry and an exit. The float64 arithmetic of the loop gives the journal
  \<open>rounding_journal\<close> and the balance \<open>rounding_balance\<close>, which Python prints as
  10040.800000000001.
\<close>

definition rounding_rows :: "row list" where
  "rounding_rows =
     [\<lparr>time = 0, price = float64 (9269 / 100), sma_14 = None, rsi_14 = Some 20\<rparr>,
      \<lparr>time = 1, price = float64 (10695 / 100), sma_14 = None, rsi_14 = Some 80\<rparr>,
      \<lparr>time = 2, price = float64 (10528 / 100), sma_14 = None, rsi_14 = Some 20\<rparr>,
      \<lparr>time = 3, price = float64 (951 / 10), sma_14 = None, rsi_14 = Some 80\<rparr>]"

definition rounding_journal :: "trade list" where
  "rounding_journal =
     [BUY (1630619724456919 / 17592186044416) 0,
      SELL (7525937189801165 / 70368744177664) 1
        (5017291459867445 / 35184372088832) (5575953317940429 / 549755813888),
      BUY (3704210693512233 / 35184372088832) 2,
      SELL (3346033785647923 / 35184372088832) 3
        (- (895442269660775 / 8796093022208)) (5519988176086631 / 549755813888)]"

definition rounding_balance :: real where
  "rounding_balance = 5519988176086631 / 549755813888"

text \<open>
  Sixteen ticks at the price 100; a file of three ticks; a file that cannot be read; a
  file that has no column \<open>price\<close>; a file whose column \<open>price\<close> is text; and a read
  that the user interrupts.
\<close>

definition flat_ticks :: "tick list" where
  "flat_ticks = map (\<lambda>i. \<lparr>time = int i, price = 100\<rparr>) [0..<16]"

definition flat_read :: read_csv where
  "flat_read path = Inr (Ticks flat_ticks)"

definition short_read :: read_csv where
  "short_read path = Inr (Ticks (take 3 example_ticks))"

definition failing_read :: read_csv where
  "failing_read path = Inl (Raised ''FileNotFoundError'')"

definition noprice_read :: read_csv where
  "noprice_read path = Inr (NoPrice [0, 1, 2])"

definition textprice_read :: read_csv where
  "textprice_read path = Inr (TextPrice [(0, ''n/a''), (1, ''n/a'')])"

definition interrupted_read :: read_csv where
  "interrupted_read path = Inl KeyboardInterrupt"

section \<open>Properties\<close>

subsection \<open>Float64 arithmetic on the numbers of the small runs\<close>

lemma round64_0: "round64 0 = 0"
  by (simp add: round64_def)

lemma round64_10000: "round64 10000 = 10000"
  by code_simp

lemma flat_trade: "fadd INITIAL_BALANCE (fmul (fsub c c) STAKE_AMOUNT) = INITIAL_BALANCE"
  by (simp add: fadd_def fmul_def fsub_def round64_0 round64_10000 INITIAL_BALANCE_def)

lemma example_arith:
  "fsub 103 100 = 3" "fmul 3 10 = 30" "fadd 10000 30 = 10030"
  "fsub 105 101 = 4" "fmul 4 10 = 40" "fadd 10030 40 = 10070"
  "fdiv 1 1 = 1" "fmul 1 100 = 100"
  by code_simp+

lemma rounding_prices:
  "float64 (9269 / 100) = 1630619724456919 / 17592186044416"
  "float64 (10695 / 100) = 7525937189801165 / 70368744177664"
  "float64 (10528 / 100) = 3704210693512233 / 35184372088832"
  "float64 (951 / 10) = 3346033785647923 / 35184372088832"
  by code_simp+

lemma rounding_arith:
  "fsub (7525937189801165 / 70368744177664) (1630619724456919 / 17592186044416) =
     1003458291973489 / 70368744177664"
  "fmul (1003458291973489 / 70368744177664) 10 = 5017291459867445 / 35184372088832"
  "fadd 10000 (5017291459867445 / 35184372088832) = 5575953317940429 / 549755813888"
  "fsub (3346033785647923 / 35184372088832) (3704210693512233 / 35184372088832) =
     - (179088453932155 / 17592186044416)"
  "fmul (- (179088453932155 / 17592186044416)) 10 = - (895442269660775 / 8796093022208)"
  "fadd (5575953317940429 / 549755813888) (- (895442269660775 / 8796093022208)) =
     5519988176086631 / 549755813888"
  by code_simp+

lemma rounding_sums:
  "fadd (fadd 0 (5017291459867445 / 35184372088832)) (- (895442269660775 / 8796093022208)) =
     1435522381224345 / 35184372088832"
  "fadd 10000 (1435522381224345 / 35184372088832) = 2759994088043315 / 274877906944"
  by code_simp+

subsection \<open>Bounds of float64 rounding\<close>

text \<open>
  Rounding keeps a number that is not negative so, and keeps a number of at most 100
  below every integer above it: up to 100 the float64 values are multiples of a
  negative power of two, and so is every integer.
\<close>

lemma round_half_even_nonneg: "0 \<le> y \<Longrightarrow> 0 \<le> round_half_even y"
  by (simp add: round_half_even_def Let_def)

lemma round_half_even_le:
  assumes "y \<le> of_int m"
  shows "round_half_even y \<le> m"
proof (cases "y = of_int m")
  case True
  then show ?thesis by (simp add: round_half_even_def Let_def)
next
  case False
  with assms have "y < of_int m" by simp
  then have "\<lfloor>y\<rfloor> < m" by (simp add: floor_less_iff)
  moreover have "round_half_even y \<le> \<lfloor>y\<rfloor> + 1"
    by (simp add: round_half_even_def Let_def)
  ultimately show ?thesis by linarith
qed

lemma ulp_pos: "0 < ulp x"
  by (simp add: ulp_def Let_def)

lemma exponent_le_6:
  assumes "\<bar>x\<bar> \<le> 100"
  shows "exponent x \<le> 6"
proof (cases "1 \<le> \<bar>x\<bar>")
  case True
  let ?a = "\<lfloor>\<bar>x\<bar>\<rfloor>"
  from True have pos: "0 < ?a" by simp
  from assms have "?a \<le> 100" by (simp add: floor_le_iff)
  moreover from bitlen_bounds [OF pos] have "(2::int) ^ nat (bitlen ?a - 1) \<le> ?a" ..
  ultimately have "(2::int) ^ nat (bitlen ?a - 1) < 128" by linarith
  then have lt: "(2::int) ^ nat (bitlen ?a - 1) < 2 ^ 7" by simp
  have "nat (bitlen ?a - 1) < 7" by (rule power_less_imp_less_exp [OF _ lt]) simp
  with True show ?thesis by (simp add: exponent_def)
next
  case False
  then show ?thesis
    using bitlen_nonneg [of "\<lceil>1 / \<bar>x\<bar>\<rceil> - 1"] by (simp add: exponent_def)
qed

lemma ulp_small:
  assumes "\<bar>x\<bar> \<le> 100"
  shows "\<exists>k. ulp x = 1 / 2 ^ k"
  using exponent_le_6 [OF assms] by (auto simp add: ulp_def Let_def)

lemma round64_nonneg: "0 \<le> x \<Longrightarrow> 0 \<le> round64 x"
  using ulp_pos [of x]
  by (simp add: round64_def round_half_even_nonneg less_imp_le)

lemma round64_le_int:
  assumes "0 \<le> x" and "x \<le> of_int b" and "b \<le> 100"
  shows "round64 x \<le> of_int b"
proof (cases "x = 0")
  case True
  with assms show ?thesis by (simp add: round64_def)
next
  case False
  from assms have "\<bar>x\<bar> \<le> 100" by simp
  from ulp_small [OF this] obtain k where u: "ulp x = 1 / 2 ^ k" ..
  from assms(2) have "x / ulp x \<le> of_int (b * 2 ^ k)"
    by (simp add: u)
  then have "round_half_even (x / ulp x) \<le> b * 2 ^ k" by (rule round_half_even_le)
  then have "real_of_int (round_half_even (x / ulp x)) \<le> real_of_int (b * 2 ^ k)"
    by (simp only: of_int_le_iff)
  then have "real_of_int (round_half_even (x / ulp x)) * ulp x \<le> of_int b"
    by (simp add: u field_simps)
  with False show ?thesis by (simp add: round64_def)
qed

lemma win_rate_bounds:
  assumes "w \<le> n" and "0 < n"
  shows "0 \<le> fmul (fdiv (real w) (real n)) 100 \<and> fmul (fdiv (real w) (real n)) 100 \<le> 100"
proof -
  let ?q = "fdiv (real w) (real n)"
  from assms have "0 \<le> real w / real n" "real w / real n \<le> of_int 1" by simp_all
  then have q: "0 \<le> ?q" "?q \<le> 1"
    using round64_nonneg [of "real w / real n"] round64_le_int [of "real w / real n" 1]
    by (simp_all add: fdiv_def)
  then have "0 \<le> ?q * 100" "?q * 100 \<le> of_int 100" by simp_all
  then show ?thesis
    using round64_nonneg [of "?q * 100"] round64_le_int [of "?q * 100" 100]
    by (simp add: fmul_def)
qed


subsection \<open>The loop body and the loop\<close>

lemma step_buy:
  "\<not> in_position s \<Longrightarrow> float_lt (rsi_14 r) 30 \<Longrightarrow>
   step r s = s\<lparr>entry_price := price r, entry_time := Some (time r), in_position := True,
                trades := trades s @ [BUY (price r) (time r)]\<rparr>"
  by (simp add: step_def Let_def)

lemma step_sell:
  "in_position s \<Longrightarrow> float_gt (rsi_14 r) 70 \<Longrightarrow>
   step r s =
     s\<lparr>balance := fadd (balance s) (fmul (fsub (price r) (entry_price s)) STAKE_AMOUNT),
       in_position := False,
       trades := trades s @
         [SELL (price r) (time r) (fmul (fsub (price r) (entry_price s)) STAKE_AMOUNT)
            (fadd (balance s) (fmul (fsub (price r) (entry_price s)) STAKE_AMOUNT))]\<rparr>"
  by (simp add: step_def Let_def)

lemma step_idle:
  "in_position s \<or> \<not> float_lt (rsi_14 r) 30 \<Longrightarrow>
   \<not> in_position s \<or> \<not> float_gt (rsi_14 r) 70 \<Longrightarrow> step r s = s"
  by (auto simp add: step_def Let_def)

lemma step_cases:
  obtains (buy) "\<not> in_position s" "float_lt (rsi_14 r) 30"
  | (sell) "in_position s" "float_gt (rsi_14 r) 70"
  | (idle) "in_position s \<or> \<not> float_lt (rsi_14 r) 30"
      "\<not> in_position s \<or> \<not> float_gt (rsi_14 r) 70"
  by blast

lemma run_loop_append: "run_loop (xs @ ys) s = run_loop ys (run_loop xs s)"
  by (induction xs arbitrary: s) simp_all

lemma run_loop_snoc: "run_loop (xs @ [r]) s = step r (run_loop xs s)"
  by (simp add: run_loop_append)

lemma run_simulation_loaded: "run_simulation (loaded path rs) = Inr (self_of (run path rs))"
  by (simp add: run_simulation_def loaded_def run_def)

lemma is_SELL_iff: "is_SELL t = (\<not> is_BUY t)"
  by (cases t) simp_all

subsection \<open>The small runs, evaluated\<close>

lemma example_run:
  "run ''ticks.csv'' example_rows =
     \<lparr>data_path = ''ticks.csv'', balance = 10030, trades = example_journal,
      df = Some (Rows example_rows), in_position = True, entry_price = 101,
      entry_time = Some 3\<rparr>"
  by (simp add: run_def example_rows_def example_journal_def step_def enter_def loaded_def
      BacktestEngine_def Let_def INITIAL_BALANCE_def STAKE_AMOUNT_def example_arith)

lemma example_run_closed:
  "run ''ticks.csv'' (take 3 example_rows) =
     \<lparr>data_path = ''ticks.csv'', balance = 10030, trades = [BUY 100 1, SELL 103 2 30 10030],
      df = Some (Rows (take 3 example_rows)), in_position = False, entry_price = 100,
      entry_time = Some 1\<rparr>"
  by (simp add: run_def example_rows_def step_def enter_def loaded_def
      BacktestEngine_def Let_def INITIAL_BALANCE_def STAKE_AMOUNT_def example_arith)

lemma example_step_exit:
  "step exit_row (run ''ticks.csv'' example_rows) =
     \<lparr>data_path = ''ticks.csv'', balance = 10070,
      trades = example_journal @ [SELL 105 4 40 10070],
      df = Some (Rows example_rows), in_position = False, entry_price = 101,
      entry_time = Some 3\<rparr>"
  by (simp add: example_run step_def exit_row_def Let_def STAKE_AMOUNT_def example_arith)

lemma example_step_idle:
  "step exit_row (run ''ticks.csv'' (take 3 example_rows)) =
     run ''ticks.csv'' (take 3 example_rows)"
  by (simp add: example_run_closed step_def exit_row_def Let_def)

lemma rounding_rows_values:
  "rounding_rows =
     [\<lparr>time = 0, price = 1630619724456919 / 17592186044416, sma_14 = None, rsi_14 = Some 20\<rparr>,
      \<lparr>time = 1, price = 7525937189801165 / 70368744177664, sma_14 = None, rsi_14 = Some 80\<rparr>,
      \<lparr>time = 2, price = 3704210693512233 / 35184372088832, sma_14 = None, rsi_14 = Some 20\<rparr>,
      \<lparr>time = 3, price = 3346033785647923 / 35184372088832, sma_14 = None, rsi_14 = Some 80\<rparr>]"
  unfolding rounding_rows_def rounding_prices by (rule refl)

lemma rounding_run:
  "run ''prices.csv'' rounding_rows =
     \<lparr>data_path = ''prices.csv'', balance = rounding_balance, trades = rounding_journal,
      df = Some (Rows rounding_rows), in_position = False,
      entry_price = 3704210693512233 / 35184372088832, entry_time = Some 2\<rparr>"
  unfolding rounding_rows_values
  by (simp add: run_def rounding_journal_def rounding_balance_def step_def
      enter_def loaded_def BacktestEngine_def Let_def INITIAL_BALANCE_def STAKE_AMOUNT_def
      rounding_arith)

subsection \<open>The invariants\<close>

lemma parity_inv_step:
  assumes "parity_inv s"
  shows "parity_inv (step r s)"
proof (cases s r rule: step_cases)
  case buy
  with assms show ?thesis
    by (auto simp add: step_buy parity_inv_def nth_append less_Suc_eq)
next
  case sell
  with assms show ?thesis
    by (auto simp add: step_sell parity_inv_def nth_append less_Suc_eq)
next
  case idle
  with assms show ?thesis by (simp add: step_idle)
qed

lemma parity_inv_run_loop: "parity_inv s \<Longrightarrow> parity_inv (run_loop rs s)"
  by (induction rs arbitrary: s) (simp_all add: parity_inv_step)

lemma parity_inv_enter: "parity_inv (enter (loaded path rs))"
  by (simp add: parity_inv_def enter_def loaded_def BacktestEngine_def)

lemma parity_inv_run: "parity_inv (run path rs)"
  unfolding run_def by (rule parity_inv_run_loop [OF parity_inv_enter])

lemma parity_counts:
  "\<forall>i < length ts. is_BUY (ts ! i) = even i \<Longrightarrow>
   length (filter is_BUY ts) = (length ts + 1) div 2 \<and>
   length (filter is_SELL ts) = length ts div 2"
proof (induction ts rule: rev_induct)
  case Nil
  show ?case by simp
next
  case (snoc x xs)
  have "\<forall>i < length xs. is_BUY (xs ! i) = even i"
  proof (intro allI impI)
    fix i assume "i < length xs"
    with snoc.prems [rule_format, of i] show "is_BUY (xs ! i) = even i"
      by (simp add: nth_append)
  qed
  then have IH: "length (filter is_BUY xs) = (length xs + 1) div 2"
    "length (filter is_SELL xs) = length xs div 2"
    using snoc.IH by simp_all
  from snoc.prems [rule_format, of "length xs"] have x: "is_BUY x = even (length xs)"
    by simp
  then have sx: "is_SELL x = odd (length xs)"
    by (simp add: is_SELL_iff)
  show ?case
  proof (cases "even (length xs)")
    case True
    with x sx IH show ?thesis by (auto elim: evenE)
  next
    case False
    with x sx IH show ?thesis by (auto elim: oddE)
  qed
qed

lemma last_balance_snoc_BUY: "last_balance b (ts @ [BUY p t]) = last_balance b ts"
  by (induction b ts rule: last_balance.induct) simp_all

lemma last_balance_snoc_SELL: "last_balance b (ts @ [SELL p t n b']) = b'"
  by (induction b ts rule: last_balance.induct) simp_all

lemma accumulated_snoc_BUY: "accumulated b (ts @ [BUY p t]) = accumulated b ts"
  by (simp add: accumulated_def pnls_def)

lemma accumulated_snoc_SELL:
  "accumulated b (ts @ [SELL p t n b']) = fadd (accumulated b ts) n"
  by (simp add: accumulated_def pnls_def)

lemma balance_inv_step:
  assumes "balance_inv s"
  shows "balance_inv (step r s)"
proof (cases s r rule: step_cases)
  case buy
  with assms show ?thesis
    by (auto simp add: step_buy balance_inv_def nth_append less_Suc_eq
        last_balance_snoc_BUY accumulated_snoc_BUY)
next
  case sell
  with assms show ?thesis
    by (auto simp add: step_sell balance_inv_def nth_append less_Suc_eq
        last_balance_snoc_SELL accumulated_snoc_SELL)
next
  case idle
  with assms show ?thesis by (simp add: step_idle)
qed

lemma balance_inv_run_loop: "balance_inv s \<Longrightarrow> balance_inv (run_loop rs s)"
  by (induction rs arbitrary: s) (simp_all add: balance_inv_step)

lemma balance_inv_enter: "balance_inv (enter (loaded path rs))"
  by (simp add: balance_inv_def enter_def loaded_def BacktestEngine_def accumulated_def
      pnls_def)

lemma balance_inv_run: "balance_inv (run path rs)"
  unfolding run_def by (rule balance_inv_run_loop [OF balance_inv_enter])

lemma flat_inv_step:
  assumes "flat_inv c s" and "price r = c"
  shows "flat_inv c (step r s)"
proof (cases s r rule: step_cases)
  case buy
  with assms show ?thesis by (simp add: step_buy flat_inv_def)
next
  case sell
  with assms show ?thesis by (simp add: step_sell flat_inv_def flat_trade)
next
  case idle
  then have "step r s = s" by (rule step_idle)
  with assms show ?thesis by simp
qed

lemma flat_inv_run_loop:
  "flat_inv c s \<Longrightarrow> \<forall>r \<in> set rs. price r = c \<Longrightarrow> flat_inv c (run_loop rs s)"
  by (induction rs arbitrary: s) (simp_all add: flat_inv_step)

lemma no_entry_run_loop:
  "\<forall>r \<in> set rs. \<not> float_lt (rsi_14 r) 30 \<Longrightarrow> \<not> in_position s \<Longrightarrow> run_loop rs s = s"
  by (induction rs arbitrary: s) (simp_all add: step_idle)

lemma no_entry_report:
  assumes "\<forall>r \<in> set rs. \<not> float_lt (rsi_14 r) 30"
  shows "generate_report (self_of (run path rs)) = idle_report"
proof -
  have "run path rs = enter (loaded path rs)"
    unfolding run_def using assms by (rule no_entry_run_loop) (simp add: enter_def)
  then show ?thesis
    by (simp add: generate_report_def self_of_def enter_def loaded_def BacktestEngine_def
        idle_report_def)
qed

lemma no_exit_run_loop:
  "\<forall>r \<in> set rs. \<not> float_gt (rsi_14 r) 70 \<Longrightarrow>
   filter is_SELL (trades (run_loop rs s)) = filter is_SELL (trades s)"
proof (induction rs arbitrary: s)
  case Nil
  show ?case by simp
next
  case (Cons r rs)
  then have IH: "filter is_SELL (trades (run_loop rs (step r s))) =
      filter is_SELL (trades (step r s))"
    and r: "\<not> float_gt (rsi_14 r) 70"
    by simp_all
  have "filter is_SELL (trades (step r s)) = filter is_SELL (trades s)"
  proof (cases s r rule: step_cases)
    case buy
    then show ?thesis by (simp add: step_buy)
  next
    case sell
    with r show ?thesis by simp
  next
    case idle
    then have "step r s = s" by (rule step_idle)
    then show ?thesis by simp
  qed
  with IH show ?case by simp
qed

text \<open>
  A position that is open when the loop ends was opened by some row from the flat
  state, and no later row changed anything.
\<close>

lemma open_position_origin:
  "in_position (run_loop rs s0) \<Longrightarrow> \<not> in_position s0 \<Longrightarrow>
   \<exists>pre r post. rs = pre @ r # post \<and> \<not> in_position (run_loop pre s0) \<and>
     float_lt (rsi_14 r) 30 \<and> run_loop rs s0 = step r (run_loop pre s0)"
proof (induction rs rule: rev_induct)
  case Nil
  then show ?case by simp
next
  case (snoc x xs)
  let ?s = "run_loop xs s0"
  from snoc.prems(1) have long: "in_position (step x ?s)" by (simp add: run_loop_snoc)
  show ?case
  proof (cases ?s x rule: step_cases)
    case buy
    then have "xs @ [x] = xs @ x # [] \<and> \<not> in_position (run_loop xs s0) \<and>
        float_lt (rsi_14 x) 30 \<and> run_loop (xs @ [x]) s0 = step x (run_loop xs s0)"
      by (simp add: run_loop_snoc)
    then show ?thesis by blast
  next
    case sell
    with long show ?thesis by (simp add: step_sell)
  next
    case idle
    then have same: "step x ?s = ?s" by (rule step_idle)
    with long have "in_position ?s" by simp
    from snoc.IH [OF this snoc.prems(2)] obtain pre r post where
      xs: "xs = pre @ r # post" and flat: "\<not> in_position (run_loop pre s0)" and
      lt: "float_lt (rsi_14 r) 30" and eq: "run_loop xs s0 = step r (run_loop pre s0)"
      by blast
    from same eq have "run_loop (xs @ [x]) s0 = step r (run_loop pre s0)"
      by (simp only: run_loop_snoc)
    moreover from xs have "xs @ [x] = pre @ r # (post @ [x])" by simp
    ultimately show ?thesis using flat lt by blast
  qed
qed

subsection \<open>The script\<close>

lemma with_columns_cells:
  assumes "r \<in> set (with_columns ts sma rsi)"
  shows "rsi_14 r \<in> set rsi \<and> price r \<in> price ` set ts"
proof -
  from assms obtain t s x where
    z: "(t, s, x) \<in> set (zip ts (zip sma rsi))" and
    r: "r = \<lparr>time = time t, price = price t, sma_14 = s, rsi_14 = x\<rparr>"
    by (auto simp add: with_columns_def)
  from z have "t \<in> set ts" by (rule set_zip_leftD)
  moreover from z have "(s, x) \<in> set (zip sma rsi)" by (rule set_zip_rightD)
  then have "x \<in> set rsi" by (rule set_zip_rightD)
  ultimately show ?thesis using r by simp
qed

text \<open>A report comes from a frame with a numeric column \<open>price\<close>, and from the loop.\<close>

lemma main_Inr_rows:
  assumes "main read SMA RSI path = Inr rep"
  shows "\<exists>fr ticks. read path = Inr fr \<and> frame_ticks fr = Inr ticks \<and>
    rep = generate_report (self_of (run path
      (with_columns ticks (SMA (map price ticks) 14) (RSI (map price ticks) 14))))"
proof -
  from assms obtain e1 e2 e3 where
    1: "load_data read (BacktestEngine path) = Inr e1" and
    2: "add_indicators SMA RSI e1 = Inr e2" and
    3: "run_simulation e2 = Inr e3" and
    4: "rep = generate_report e3"
    by (auto simp add: main_def split: sum.splits)
  from 1 obtain fr where t: "read path = Inr fr"
    and e1: "e1 = (BacktestEngine path)\<lparr>df := Some fr\<rparr>"
    by (auto simp add: load_data_def BacktestEngine_def split: sum.splits if_splits)
  from 2 e1 obtain ticks where ft: "frame_ticks fr = Inr ticks" and
    e2: "e2 = loaded path
      (with_columns ticks (SMA (map price ticks) 14) (RSI (map price ticks) 14))"
    by (auto simp add: add_indicators_def loaded_def Let_def split: if_splits sum.splits)
  from 3 e2 have "e3 = self_of (run path
      (with_columns ticks (SMA (map price ticks) 14) (RSI (map price ticks) 14)))"
    by (simp add: run_simulation_loaded)
  with 4 t ft show ?thesis by blast
qed

text \<open>
  An exception can leave the script only before the loop: the balance and the journal
  are those of the constructor, and the exception is not a \<open>DataSourceError\<close>.
\<close>

lemma main_Inl:
  assumes "main read SMA RSI path = Inl (ex, acc)"
  shows "acc = (INITIAL_BALANCE, []) \<and> ex \<noteq> DataSourceError"
proof (cases "load_data read (BacktestEngine path)")
  case (Inl a)
  with assms have a: "load_data read (BacktestEngine path) = Inl (ex, acc)"
    by (simp add: main_def)
  then show ?thesis
    by (cases "read path"; cases ex)
      (auto simp add: load_data_def account_of_def BacktestEngine_def DataSourceError_def
        split: if_splits)
next
  case (Inr e1)
  then obtain fr where e1: "e1 = (BacktestEngine path)\<lparr>df := Some fr\<rparr>"
    by (auto simp add: load_data_def split: sum.splits if_splits)
  show ?thesis
  proof (cases "add_indicators SMA RSI e1")
    case (Inl a)
    with assms Inr have a: "add_indicators SMA RSI e1 = Inl (ex, acc)"
      by (simp add: main_def)
    then show ?thesis
      unfolding e1
      by (cases fr)
        (auto simp add: add_indicators_def account_of_def BacktestEngine_def
          DataSourceError_def Let_def split: if_splits)
  next
    case (Inr e2)
    with e1 obtain rs where "e2 = loaded path rs"
      by (auto simp add: add_indicators_def loaded_def Let_def
          split: if_splits sum.splits)
    with assms \<open>load_data read (BacktestEngine path) = Inr e1\<close> Inr show ?thesis
      by (simp add: main_def run_simulation_loaded)
  qed
qed

lemma main_loaded:
  assumes "read path = Inr (Ticks ticks)"
    and "length (SMA (map price ticks) 14) = length ticks"
    and "length (RSI (map price ticks) 14) = length ticks"
  shows "main read SMA RSI path =
    Inr (generate_report (self_of (run path
      (with_columns ticks (SMA (map price ticks) 14) (RSI (map price ticks) 14)))))"
  using assms
  by (simp add: main_def load_data_def add_indicators_def BacktestEngine_def Let_def
      run_simulation_def run_def loaded_def)

lemma example_main:
  "main example_read example_SMA example_RSI ''ticks.csv'' = Inr example_report"
proof -
  have "with_columns example_ticks (example_SMA (map price example_ticks) 14)
          (example_RSI (map price example_ticks) 14) = example_rows"
    by (simp add: with_columns_def example_ticks_def example_SMA_def example_RSI_def
        example_rows_def)
  then have "main example_read example_SMA example_RSI ''ticks.csv'' =
      Inr (generate_report (self_of (run ''ticks.csv'' example_rows)))"
    using main_loaded [of example_read "''ticks.csv''" example_ticks example_SMA example_RSI]
    by (simp add: example_read_def example_ticks_def example_SMA_def example_RSI_def)
  also have "generate_report (self_of (run ''ticks.csv'' example_rows)) = example_report"
    by (simp add: example_run self_of_def generate_report_def example_journal_def
        example_report_def INITIAL_BALANCE_def example_arith)
  finally show ?thesis .
qed

subsection \<open>The indicators of the specification\<close>

lemma length_computeSMA: "length (computeSMA prices period) = length prices"
  by (simp add: computeSMA_def)

lemma length_deltas: "length (deltas xs) = length xs - 1"
  by (induction xs rule: deltas.induct) simp_all

lemma length_smooth: "length (smooth p g l ds) = length ds"
  by (induction ds arbitrary: g l) (simp_all add: Let_def)

lemma length_computeRSI: "length (computeRSI prices period) = length prices"
  by (auto simp add: computeRSI_def Let_def length_smooth length_deltas)

lemma deltas_replicate: "deltas (replicate (Suc n) c) = replicate n 0"
  by (induction n) simp_all

lemma smooth_flat: "smooth p 0 0 (replicate k 0) = replicate k (Some 50)"
  by (induction k) (simp_all add: gain_def loss_def rsi_of_def)

lemma computeRSI_flat:
  assumes "p < n"
  shows "computeRSI (replicate n c) p = replicate p None @ replicate (n - p) (Some 50)"
proof -
  from assms obtain m where n: "n = Suc m" by (cases n) auto
  from assms n have le: "p \<le> m" by simp
  have d: "deltas (replicate n c) = replicate m 0" unfolding n by (rule deltas_replicate)
  have g: "sum_list (map gain (take p (replicate m 0))) = 0"
    and l: "sum_list (map loss (take p (replicate m 0))) = 0"
    by (simp_all add: sum_list_replicate gain_def loss_def)
  have "computeRSI (replicate n c) p =
          replicate p None @ Some (rsi_of 0 0) # smooth p 0 0 (replicate (m - p) 0)"
    using assms by (simp add: computeRSI_def d g l del: take_replicate)
  also have "\<dots> = replicate p None @ replicate (Suc (m - p)) (Some 50)"
    by (simp add: smooth_flat rsi_of_def)
  also have "Suc (m - p) = n - p" using le n by simp
  finally show ?thesis .
qed

lemma main_spec_indicators:
  assumes "read path = Inr (Ticks ticks)"
  shows "main read computeSMA computeRSI path =
    Inr (generate_report (self_of (run path
      (with_columns ticks (computeSMA (map price ticks) 14) (computeRSI (map price ticks) 14)))))"
  using assms by (rule main_loaded) (simp_all add: length_computeSMA length_computeRSI)

section \<open>The claims\<close>

subsection \<open>The balance\<close>

text \<open>
  Claim C1 as it is stated does not hold of the source: the balance is accumulated in
  float64, and on the four ticks of \<open>rounding_rows\<close> the final balance of the report is
  neither the initial balance plus the exact sum of the \<open>pnl\<close> fields of the SELL
  events, nor the float64 that Python computes for \<open>initial_balance + sum(pnl)\<close>.
\<close>

theorem final_balance_is_not_exact_sum:
  "run_simulation (loaded ''prices.csv'' rounding_rows) =
     Inr (self_of (run ''prices.csv'' rounding_rows)) \<and>
   report_trades (generate_report (self_of (run ''prices.csv'' rounding_rows))) =
     rounding_journal \<and>
   final_balance (generate_report (self_of (run ''prices.csv'' rounding_rows))) =
     5519988176086631 / 549755813888 \<and>
   initial_balance (generate_report (self_of (run ''prices.csv'' rounding_rows))) +
     sum_list (map get_pnl (filter is_SELL
       (report_trades (generate_report (self_of (run ''prices.csv'' rounding_rows)))))) =
     353279243269544345 / 35184372088832 \<and>
   final_balance (generate_report (self_of (run ''prices.csv'' rounding_rows))) \<noteq>
     initial_balance (generate_report (self_of (run ''prices.csv'' rounding_rows))) +
     sum_list (map get_pnl (filter is_SELL
       (report_trades (generate_report (self_of (run ''prices.csv'' rounding_rows)))))) \<and>
   final_balance (generate_report (self_of (run ''prices.csv'' rounding_rows))) \<noteq>
     fadd (initial_balance (generate_report (self_of (run ''prices.csv'' rounding_rows))))
       (foldl fadd 0 (map get_pnl (filter is_SELL
         (report_trades (generate_report (self_of (run ''prices.csv'' rounding_rows)))))))"
proof -
  let ?rep = "generate_report (self_of (run ''prices.csv'' rounding_rows))"
  have t: "report_trades ?rep = rounding_journal"
    and f: "final_balance ?rep = 5519988176086631 / 549755813888"
    and i: "initial_balance ?rep = 10000"
    by (simp_all add: rounding_run generate_report_def self_of_def Let_def
        rounding_balance_def INITIAL_BALANCE_def)
  have p: "map get_pnl (filter is_SELL rounding_journal) =
      [5017291459867445 / 35184372088832, - (895442269660775 / 8796093022208)]"
    by (simp add: rounding_journal_def)
  have s: "(10000 :: real) +
      sum_list [5017291459867445 / 35184372088832, - (895442269660775 / 8796093022208)] =
      353279243269544345 / 35184372088832"
    by simp
  have a: "fadd 10000 (foldl fadd 0
      [5017291459867445 / 35184372088832, - (895442269660775 / 8796093022208)]) =
      2759994088043315 / 274877906944"
    by (simp add: rounding_sums)
  have n1: "(5519988176086631 / 549755813888 :: real) \<noteq> 353279243269544345 / 35184372088832"
    and n2: "(5519988176086631 / 549755813888 :: real) \<noteq> 2759994088043315 / 274877906944"
    by simp_all
  show ?thesis
    unfolding t f i p s a using n1 n2 run_simulation_loaded [of "''prices.csv''" rounding_rows]
    by (simp only: simp_thms)
qed

text \<open>
  Claim C1, amended. For every input, once the simulation has ended the final balance
  of the report is the initial balance to which the \<open>pnl\<close> fields of the SELL events of
  the journal have been added one after the other, in the order of the journal, each
  addition rounded to float64: for the engine that \<open>run_simulation\<close> returns on any
  frame of rows, and for every report that the script returns, whatever the file and
  the indicator library are.
\<close>

theorem final_balance_is_accumulated_pnl:
  "(\<exists>e'. run_simulation (loaded path rs) = Inr e' \<and>
      final_balance (generate_report e') =
        foldl fadd (initial_balance (generate_report e'))
          (map get_pnl (filter is_SELL (report_trades (generate_report e'))))) \<and>
   (main read SMA RSI path = Inr rep \<longrightarrow>
      final_balance rep =
        foldl fadd (initial_balance rep) (map get_pnl (filter is_SELL (report_trades rep))))"
proof -
  have *: "final_balance (generate_report (self_of (run p xs))) =
        foldl fadd (initial_balance (generate_report (self_of (run p xs))))
          (map get_pnl
            (filter is_SELL (report_trades (generate_report (self_of (run p xs))))))"
    for p xs
    using balance_inv_run [of p xs]
    by (simp add: balance_inv_def accumulated_def pnls_def generate_report_def self_of_def
        Let_def)
  show ?thesis
    using * main_Inr_rows [of read SMA RSI path rep]
    by (auto simp add: run_simulation_loaded)
qed

theorem final_balance_is_accumulated_pnl_witness:
  "main example_read example_SMA example_RSI ''ticks.csv'' = Inr example_report \<and>
   final_balance example_report = 10030 \<and>
   initial_balance example_report = 10000 \<and>
   map get_pnl (filter is_SELL (report_trades example_report)) = [30] \<and>
   final_balance example_report =
     foldl fadd (initial_balance example_report)
       (map get_pnl (filter is_SELL (report_trades example_report)))"
  using final_balance_is_accumulated_pnl
    [of "''ticks.csv''" example_rows example_read example_SMA example_RSI example_report]
    example_main
  by (simp add: example_report_def example_journal_def)

text \<open>
  Claim C8 as it is stated does not hold of the source: on the four ticks of
  \<open>rounding_rows\<close> the balance that the first SELL recorded is not the initial balance
  plus its \<open>pnl\<close> as exact numbers, and the balance that the second SELL recorded is
  neither the initial balance plus the exact sum of the two \<open>pnl\<close> fields nor the
  float64 that Python computes for \<open>initial_balance + sum(pnl)\<close>.
\<close>

theorem sell_balance_is_not_exact_sum:
  "trades (run ''prices.csv'' rounding_rows) = rounding_journal \<and>
   is_SELL (rounding_journal ! 1) \<and> is_SELL (rounding_journal ! 3) \<and>
   sell_balance (rounding_journal ! 1) \<noteq>
     Some (INITIAL_BALANCE +
       sum_list (map get_pnl (filter is_SELL (take (Suc 1) rounding_journal)))) \<and>
   sell_balance (rounding_journal ! 3) \<noteq>
     Some (INITIAL_BALANCE +
       sum_list (map get_pnl (filter is_SELL (take (Suc 3) rounding_journal)))) \<and>
   sell_balance (rounding_journal ! 3) \<noteq>
     Some (fadd INITIAL_BALANCE
       (foldl fadd 0 (map get_pnl (filter is_SELL (take (Suc 3) rounding_journal)))))"
proof -
  have a: "fadd 10000 (foldl fadd 0
      [5017291459867445 / 35184372088832, - (895442269660775 / 8796093022208)]) =
      2759994088043315 / 274877906944"
    by (simp add: rounding_sums)
  have 1: "trades (run ''prices.csv'' rounding_rows) = rounding_journal"
    by (simp add: rounding_run)
  have 2: "is_SELL (rounding_journal ! 1)" "is_SELL (rounding_journal ! 3)"
    by (simp_all add: rounding_journal_def)
  have 3: "sell_balance (rounding_journal ! 1) \<noteq>
     Some (INITIAL_BALANCE +
       sum_list (map get_pnl (filter is_SELL (take (Suc 1) rounding_journal))))"
    by (simp add: rounding_journal_def INITIAL_BALANCE_def)
  have 4: "sell_balance (rounding_journal ! 3) \<noteq>
     Some (INITIAL_BALANCE +
       sum_list (map get_pnl (filter is_SELL (take (Suc 3) rounding_journal))))"
    by (simp add: rounding_journal_def INITIAL_BALANCE_def)
  have 5: "sell_balance (rounding_journal ! 3) \<noteq>
     Some (fadd INITIAL_BALANCE
       (foldl fadd 0 (map get_pnl (filter is_SELL (take (Suc 3) rounding_journal)))))"
    using a by (simp add: rounding_journal_def INITIAL_BALANCE_def)
  from 1 2 3 4 5 show ?thesis by (simp only: simp_thms)
qed

text \<open>
  Claim C8, amended. Every SELL of the journal recorded, as its \<open>balance\<close>, the balance
  recorded by the SELL before it (the initial balance for the first one) plus its own
  \<open>pnl\<close>, the sum rounded to float64; this is the initial balance to which the \<open>pnl\<close>
  fields of the SELL events up to and including itself have been added one after the
  other, each addition rounded to float64. The final balance of the report is the
  balance recorded by the last SELL (the initial balance when there is none); in
  particular, when the run ends flat with a journal that is not empty, the last event
  recorded the final balance.
\<close>

theorem sell_balance_is_accumulated_pnl:
  "run_simulation (loaded path rs) = Inr (self_of (run path rs)) \<and>
   (\<forall>i < length (trades (run path rs)). is_SELL (trades (run path rs) ! i) \<longrightarrow>
      sell_balance (trades (run path rs) ! i) =
        Some (fadd (last_balance INITIAL_BALANCE (take i (trades (run path rs))))
                (get_pnl (trades (run path rs) ! i))) \<and>
      sell_balance (trades (run path rs) ! i) =
        Some (foldl fadd INITIAL_BALANCE
                (map get_pnl (filter is_SELL (take (Suc i) (trades (run path rs))))))) \<and>
   final_balance (generate_report (self_of (run path rs))) =
     last_balance INITIAL_BALANCE (trades (run path rs)) \<and>
   (\<not> in_position (run path rs) \<and> trades (run path rs) \<noteq> [] \<longrightarrow>
      sell_balance (last (trades (run path rs))) =
        Some (final_balance (generate_report (self_of (run path rs)))))"
proof -
  let ?s = "run path rs"
  let ?ts = "trades ?s"
  have inv: "balance_inv ?s" by (rule balance_inv_run)
  have par: "parity_inv ?s" by (rule parity_inv_run)
  have fin: "final_balance (generate_report (self_of ?s)) = balance ?s"
    by (simp add: generate_report_def self_of_def Let_def)
  have 1: "\<forall>i < length ?ts. is_SELL (?ts ! i) \<longrightarrow>
      sell_balance (?ts ! i) =
        Some (fadd (last_balance INITIAL_BALANCE (take i ?ts)) (get_pnl (?ts ! i))) \<and>
      sell_balance (?ts ! i) =
        Some (foldl fadd INITIAL_BALANCE (map get_pnl (filter is_SELL (take (Suc i) ?ts))))"
    using inv unfolding balance_inv_def accumulated_def pnls_def by blast
  have 2: "final_balance (generate_report (self_of ?s)) = last_balance INITIAL_BALANCE ?ts"
    using inv fin by (simp add: balance_inv_def)
  have 3: "sell_balance (last ?ts) = Some (final_balance (generate_report (self_of ?s)))"
    if flat: "\<not> in_position ?s" and ne: "?ts \<noteq> []"
  proof -
    from ne obtain xs x where ts: "?ts = xs @ [x]" by (cases ?ts rule: rev_cases) auto
    from par flat ts have "even (Suc (length xs))" by (simp add: parity_inv_def)
    moreover from par ts have "is_BUY x = even (length xs)"
      unfolding parity_inv_def by (metis length_append_singleton lessI nth_append_length)
    ultimately have "\<not> is_BUY x" by simp
    then obtain p t n b where x: "x = SELL p t n b" by (cases x) auto
    with ts 2 show ?thesis by (simp add: last_balance_snoc_SELL)
  qed
  from 3 have 4: "\<not> in_position ?s \<and> ?ts \<noteq> [] \<longrightarrow>
      sell_balance (last ?ts) = Some (final_balance (generate_report (self_of ?s)))"
    by blast
  from run_simulation_loaded [of path rs] 1 2 4 show ?thesis by blast
qed

theorem sell_balance_is_accumulated_pnl_witness:
  "run_simulation (loaded ''prices.csv'' rounding_rows) =
     Inr (self_of (run ''prices.csv'' rounding_rows)) \<and>
   trades (run ''prices.csv'' rounding_rows) = rounding_journal \<and>
   \<not> in_position (run ''prices.csv'' rounding_rows) \<and>
   is_SELL (rounding_journal ! 3) \<and>
   sell_balance (rounding_journal ! 3) = Some rounding_balance \<and>
   fadd (last_balance INITIAL_BALANCE (take 3 rounding_journal))
     (get_pnl (rounding_journal ! 3)) = rounding_balance \<and>
   foldl fadd INITIAL_BALANCE (map get_pnl (filter is_SELL (take (Suc 3) rounding_journal))) =
     rounding_balance \<and>
   final_balance (generate_report (self_of (run ''prices.csv'' rounding_rows))) =
     rounding_balance \<and>
   sell_balance (last rounding_journal) = Some rounding_balance"
proof -
  have 1: "trades (run ''prices.csv'' rounding_rows) = rounding_journal"
    and 2: "\<not> in_position (run ''prices.csv'' rounding_rows)"
    and 3: "final_balance (generate_report (self_of (run ''prices.csv'' rounding_rows))) =
      rounding_balance"
    by (simp_all add: rounding_run generate_report_def self_of_def Let_def)
  have 4: "is_SELL (rounding_journal ! 3)"
    and 5: "sell_balance (rounding_journal ! 3) = Some rounding_balance"
    and 6: "sell_balance (last rounding_journal) = Some rounding_balance"
    and 7: "length rounding_journal = 4"
    by (simp_all add: rounding_journal_def rounding_balance_def)
  from sell_balance_is_accumulated_pnl [of "''prices.csv''" rounding_rows]
  have "\<forall>i < length rounding_journal. is_SELL (rounding_journal ! i) \<longrightarrow>
      sell_balance (rounding_journal ! i) =
        Some (fadd (last_balance INITIAL_BALANCE (take i rounding_journal))
                (get_pnl (rounding_journal ! i))) \<and>
      sell_balance (rounding_journal ! i) =
        Some (foldl fadd INITIAL_BALANCE
                (map get_pnl (filter is_SELL (take (Suc i) rounding_journal))))"
    unfolding 1 by blast
  from this [rule_format, of 3] 4 5 7
  have "fadd (last_balance INITIAL_BALANCE (take 3 rounding_journal))
      (get_pnl (rounding_journal ! 3)) = rounding_balance"
    and "foldl fadd INITIAL_BALANCE
      (map get_pnl (filter is_SELL (take (Suc 3) rounding_journal))) = rounding_balance"
    by simp_all
  with run_simulation_loaded [of "''prices.csv''" rounding_rows] 1 2 3 4 5 6
  show ?thesis by (simp only: simp_thms)
qed

subsection \<open>The warm-up window\<close>

text \<open>
  Claim C3. On a tick whose RSI is undefined (NaN) the loop body changes nothing: no
  journal entry, no change of the position and none of the balance, whatever the price
  of the tick and whatever the state.
\<close>

theorem undefined_rsi_step_is_inert: "rsi_14 r = None \<Longrightarrow> step r s = s"
  by (simp add: step_def Let_def)

theorem undefined_rsi_step_is_inert_witness:
  "rsi_14 (\<lparr>time = 4, price = 250, sma_14 = None, rsi_14 = None\<rparr> :: row) = None \<and>
   step \<lparr>time = 4, price = 250, sma_14 = None, rsi_14 = None\<rparr> (run ''ticks.csv'' example_rows) =
     run ''ticks.csv'' example_rows \<and>
   in_position (run ''ticks.csv'' example_rows) \<and>
   step \<lparr>time = 4, price = 250, sma_14 = None, rsi_14 = None\<rparr> (enter (BacktestEngine ''ticks.csv'')) =
     enter (BacktestEngine ''ticks.csv'') \<and>
   \<not> in_position (enter (BacktestEngine ''ticks.csv''))"
  using undefined_rsi_step_is_inert
    [of "\<lparr>time = 4, price = 250, sma_14 = None, rsi_14 = None\<rparr>" "run ''ticks.csv'' example_rows"]
    undefined_rsi_step_is_inert
    [of "\<lparr>time = 4, price = 250, sma_14 = None, rsi_14 = None\<rparr>" "enter (BacktestEngine ''ticks.csv'')"]
  by (simp add: example_run enter_def)

subsection \<open>The position and the journal\<close>

text \<open>
  Claim C4. The position is the boolean \<open>in_position\<close>: flat or long. From a long
  state the loop body either changes nothing, so that the same position stays open, or
  it closes the position and appends a SELL: it never enters again while long. From a
  flat state it either changes nothing or enters and appends a BUY. After any number
  of rows the position is long exactly when the journal has an odd length, and no two
  neighbours in the journal of a run are both BUY or both SELL.
\<close>

theorem position_mutual_exclusion:
  "(in_position s \<longrightarrow>
      step r s = s \<or>
      (\<not> in_position (step r s) \<and>
       (\<exists>n b. trades (step r s) = trades s @ [SELL (price r) (time r) n b]))) \<and>
   (\<not> in_position s \<longrightarrow>
      step r s = s \<or>
      (in_position (step r s) \<and> trades (step r s) = trades s @ [BUY (price r) (time r)])) \<and>
   (\<forall>k \<le> length rs.
      in_position (run_loop (take k rs) (enter (loaded path rs))) =
        odd (length (trades (run_loop (take k rs) (enter (loaded path rs)))))) \<and>
   (\<forall>i. Suc i < length (trades (run path rs)) \<longrightarrow>
      is_BUY (trades (run path rs) ! i) \<noteq> is_BUY (trades (run path rs) ! Suc i) \<and>
      is_SELL (trades (run path rs) ! i) \<noteq> is_SELL (trades (run path rs) ! Suc i))"
proof -
  have 1: "in_position s \<longrightarrow>
      step r s = s \<or>
      (\<not> in_position (step r s) \<and>
       (\<exists>n b. trades (step r s) = trades s @ [SELL (price r) (time r) n b]))"
  proof (cases s r rule: step_cases)
    case buy
    then show ?thesis by simp
  next
    case sell
    then show ?thesis by (simp add: step_sell)
  next
    case idle
    then have "step r s = s" by (rule step_idle)
    then show ?thesis by simp
  qed
  have 2: "\<not> in_position s \<longrightarrow>
      step r s = s \<or>
      (in_position (step r s) \<and> trades (step r s) = trades s @ [BUY (price r) (time r)])"
  proof (cases s r rule: step_cases)
    case buy
    then show ?thesis by (simp add: step_buy)
  next
    case sell
    then show ?thesis by simp
  next
    case idle
    then have "step r s = s" by (rule step_idle)
    then show ?thesis by simp
  qed
  have 3: "\<forall>k \<le> length rs.
      in_position (run_loop (take k rs) (enter (loaded path rs))) =
        odd (length (trades (run_loop (take k rs) (enter (loaded path rs)))))"
    using parity_inv_run_loop [OF parity_inv_enter] by (simp add: parity_inv_def)
  let ?ts = "trades (run path rs)"
  have par: "\<forall>i < length ?ts. is_BUY (?ts ! i) = even i"
    using parity_inv_run [of path rs] by (simp add: parity_inv_def)
  have 4: "\<forall>i. Suc i < length ?ts \<longrightarrow>
      is_BUY (?ts ! i) \<noteq> is_BUY (?ts ! Suc i) \<and> is_SELL (?ts ! i) \<noteq> is_SELL (?ts ! Suc i)"
  proof (intro allI impI)
    fix i assume "Suc i < length ?ts"
    with par have "is_BUY (?ts ! i) = even i" "is_BUY (?ts ! Suc i) = even (Suc i)"
      by simp_all
    then show "is_BUY (?ts ! i) \<noteq> is_BUY (?ts ! Suc i) \<and>
        is_SELL (?ts ! i) \<noteq> is_SELL (?ts ! Suc i)"
      by (simp add: is_SELL_iff)
  qed
  from 1 2 3 4 show ?thesis by blast
qed

theorem position_mutual_exclusion_witness:
  "in_position (run ''ticks.csv'' example_rows) \<and>
   \<not> in_position (step exit_row (run ''ticks.csv'' example_rows)) \<and>
   trades (step exit_row (run ''ticks.csv'' example_rows)) =
     trades (run ''ticks.csv'' example_rows) @ [SELL 105 4 40 10070] \<and>
   \<not> in_position (run ''ticks.csv'' (take 3 example_rows)) \<and>
   step exit_row (run ''ticks.csv'' (take 3 example_rows)) =
     run ''ticks.csv'' (take 3 example_rows) \<and>
   is_BUY (trades (run ''ticks.csv'' example_rows) ! 0) \<and>
   is_SELL (trades (run ''ticks.csv'' example_rows) ! 1) \<and>
   is_BUY (trades (run ''ticks.csv'' example_rows) ! 2)"
proof -
  have 1: "in_position (run ''ticks.csv'' example_rows)"
    and 2: "\<not> in_position (run ''ticks.csv'' (take 3 example_rows))"
    and 3: "trades (run ''ticks.csv'' example_rows) = example_journal"
    by (simp_all add: example_run example_run_closed)
  have 4: "\<not> in_position (step exit_row (run ''ticks.csv'' example_rows))"
    by (simp add: example_step_exit)
  have 5: "price exit_row = 105" "time exit_row = 4" by (simp_all add: exit_row_def)
  have 6: "trades (step exit_row (run ''ticks.csv'' example_rows)) =
      example_journal @ [SELL 105 4 40 10070]"
    by (simp add: example_step_exit)
  from position_mutual_exclusion
    [of "run ''ticks.csv'' example_rows" exit_row example_rows "''ticks.csv''"]
    1 2 3 4 5 6 example_step_idle
  show ?thesis by (simp add: example_journal_def)
qed

text \<open>
  Claim C9. A journal that is not empty starts with a BUY; the event at an even index
  is a BUY and the event at an odd index is a SELL, so the types alternate; and the
  number of BUY events minus the number of SELL events is 0 or 1.
\<close>

theorem journal_alternates_from_BUY:
  "run_simulation (loaded path rs) = Inr (self_of (run path rs)) \<and>
   (trades (run path rs) \<noteq> [] \<longrightarrow> is_BUY (hd (trades (run path rs)))) \<and>
   (\<forall>i < length (trades (run path rs)).
      is_BUY (trades (run path rs) ! i) = even i \<and>
      is_SELL (trades (run path rs) ! i) = odd i) \<and>
   int (length (filter is_BUY (trades (run path rs)))) -
     int (length (filter is_SELL (trades (run path rs)))) \<in> {0, 1}"
proof -
  let ?ts = "trades (run path rs)"
  have par: "\<forall>i < length ?ts. is_BUY (?ts ! i) = even i"
    using parity_inv_run [of path rs] by (simp add: parity_inv_def)
  have hd: "?ts \<noteq> [] \<longrightarrow> is_BUY (hd ?ts)"
    using par by (cases ?ts) auto
  have cnt: "length (filter is_BUY ?ts) = (length ?ts + 1) div 2"
    "length (filter is_SELL ?ts) = length ?ts div 2"
    using parity_counts [OF par] by simp_all
  have "int (length (filter is_BUY ?ts)) - int (length (filter is_SELL ?ts)) \<in> {0, 1}"
    unfolding cnt by (cases "even (length ?ts)") (auto elim: evenE oddE)
  with par hd show ?thesis
    by (simp add: run_simulation_loaded is_SELL_iff)
qed

theorem journal_alternates_from_BUY_witness:
  "run_simulation (loaded ''ticks.csv'' example_rows) =
     Inr (self_of (run ''ticks.csv'' example_rows)) \<and>
   trades (run ''ticks.csv'' example_rows) = [BUY 100 1, SELL 103 2 30 10030, BUY 101 3] \<and>
   is_BUY (hd (trades (run ''ticks.csv'' example_rows))) \<and>
   is_SELL (trades (run ''ticks.csv'' example_rows) ! 1) \<and>
   is_BUY (trades (run ''ticks.csv'' example_rows) ! 2) \<and>
   int (length (filter is_BUY (trades (run ''ticks.csv'' example_rows)))) -
     int (length (filter is_SELL (trades (run ''ticks.csv'' example_rows)))) = 1"
  using journal_alternates_from_BUY [of "''ticks.csv''" example_rows]
  by (simp add: example_run example_journal_def)

text \<open>
  Claim C6. When the loop ends with a position open, no closing SELL was made up: the
  journal ends with the BUY that opened the position, at the row \<open>r\<close> where the loop
  entered from the flat state, the balance is the one the loop had before that row,
  and \<open>total_trades\<close> counts the SELL events before that BUY, one less than the number of
  BUY events. The final balance is the initial balance with the \<open>pnl\<close> fields of these
  SELL events added by float64 additions: the open position adds nothing to it.
\<close>

theorem open_position_is_left_open:
  assumes "in_position (run path rs)"
  shows "run_simulation (loaded path rs) = Inr (self_of (run path rs)) \<and>
    trades (run path rs) \<noteq> [] \<and>
    is_BUY (last (trades (run path rs))) \<and>
    (\<exists>pre r post. rs = pre @ r # post \<and>
       \<not> in_position (run_loop pre (enter (loaded path rs))) \<and>
       trades (run path rs) =
         trades (run_loop pre (enter (loaded path rs))) @ [BUY (price r) (time r)] \<and>
       entry_price (run path rs) = price r \<and> entry_time (run path rs) = Some (time r) \<and>
       balance (run path rs) = balance (run_loop pre (enter (loaded path rs)))) \<and>
    total_trades (generate_report (self_of (run path rs))) =
      length (filter is_SELL (butlast (trades (run path rs)))) \<and>
    total_trades (generate_report (self_of (run path rs))) =
      length (filter is_BUY (trades (run path rs))) - 1 \<and>
    final_balance (generate_report (self_of (run path rs))) =
      foldl fadd INITIAL_BALANCE
        (map get_pnl (filter is_SELL (butlast (trades (run path rs)))))"
proof -
  let ?init = "enter (loaded path rs)"
  let ?s = "run path rs"
  have s: "?s = run_loop rs ?init" by (simp add: run_def)
  have flat0: "\<not> in_position ?init" by (simp add: enter_def)
  from assms have "in_position (run_loop rs ?init)" by (simp add: run_def)
  from open_position_origin [OF this flat0] obtain pre r post where
    rs: "rs = pre @ r # post" and flat: "\<not> in_position (run_loop pre ?init)" and
    lt: "float_lt (rsi_14 r) 30" and fin0: "run_loop rs ?init = step r (run_loop pre ?init)"
    by blast
  from fin0 have fin: "?s = step r (run_loop pre ?init)" by (simp only: s)
  let ?p = "run_loop pre ?init"
  have st: "step r ?p = ?p\<lparr>entry_price := price r, entry_time := Some (time r),
      in_position := True, trades := trades ?p @ [BUY (price r) (time r)]\<rparr>"
    using flat lt by (rule step_buy)
  have tr: "trades ?s = trades ?p @ [BUY (price r) (time r)]"
    and ep: "entry_price ?s = price r" and et: "entry_time ?s = Some (time r)"
    and bal: "balance ?s = balance ?p"
    unfolding fin st by simp_all
  have ex: "\<exists>pre r post. rs = pre @ r # post \<and>
       \<not> in_position (run_loop pre ?init) \<and>
       trades ?s = trades (run_loop pre ?init) @ [BUY (price r) (time r)] \<and>
       entry_price ?s = price r \<and> entry_time ?s = Some (time r) \<and>
       balance ?s = balance (run_loop pre ?init)"
    using rs flat tr ep et bal by blast
  have tt: "total_trades (generate_report (self_of ?s)) = length (filter is_SELL (trades ?s))"
    by (simp add: generate_report_def self_of_def Let_def)
  have par: "\<forall>i < length (trades ?s). is_BUY (trades ?s ! i) = even i"
    using parity_inv_run [of path rs] by (simp add: parity_inv_def)
  have odd: "odd (length (trades ?s))"
    using parity_inv_run [of path rs] assms by (simp add: parity_inv_def)
  have cnt: "length (filter is_BUY (trades ?s)) = (length (trades ?s) + 1) div 2"
    "length (filter is_SELL (trades ?s)) = length (trades ?s) div 2"
    using parity_counts [OF par] by simp_all
  have c1: "total_trades (generate_report (self_of ?s)) =
      length (filter is_BUY (trades ?s)) - 1"
    unfolding tt cnt using odd by (auto elim: oddE)
  have c2: "total_trades (generate_report (self_of ?s)) =
      length (filter is_SELL (butlast (trades ?s)))"
    unfolding tt tr by simp
  have "final_balance (generate_report (self_of ?s)) =
      accumulated INITIAL_BALANCE (trades ?s)"
    using balance_inv_run [of path rs]
    by (simp add: balance_inv_def generate_report_def self_of_def Let_def)
  then have c3: "final_balance (generate_report (self_of ?s)) =
      foldl fadd INITIAL_BALANCE (map get_pnl (filter is_SELL (butlast (trades ?s))))"
    unfolding tr by (simp add: accumulated_def pnls_def)
  from tr ex c1 c2 c3 show ?thesis
    by (simp add: run_simulation_loaded)
qed

theorem open_position_is_left_open_witness:
  "in_position (run ''ticks.csv'' example_rows) \<and>
   run_simulation (loaded ''ticks.csv'' example_rows) =
     Inr (self_of (run ''ticks.csv'' example_rows)) \<and>
   last (trades (run ''ticks.csv'' example_rows)) = BUY 101 3 \<and>
   is_BUY (last (trades (run ''ticks.csv'' example_rows))) \<and>
   total_trades (generate_report (self_of (run ''ticks.csv'' example_rows))) = 1 \<and>
   length (filter is_BUY (trades (run ''ticks.csv'' example_rows))) = 2 \<and>
   final_balance (generate_report (self_of (run ''ticks.csv'' example_rows))) = 10030"
  using open_position_is_left_open [of "''ticks.csv''" example_rows]
  by (simp add: example_run example_journal_def generate_report_def self_of_def)

subsection \<open>The report\<close>

lemma wins_are_SELL:
  "filter (\<lambda>t. get_pnl t > 0) ts = filter (\<lambda>t. is_SELL t \<and> get_pnl t > 0) ts"
  by (rule filter_cong [OF refl]) (case_tac x; simp)

text \<open>
  Claim C5. For every journal, \<open>total_trades\<close> is the number of SELL events, \<open>win_rate\<close>
  is the number of SELL events with a positive \<open>pnl\<close> divided by \<open>total_trades\<close>, times
  100, in the float64 arithmetic of the source, when there is a trade and 0 when there
  is none, and it lies between 0 and 100.
\<close>

theorem report_counts_and_win_rate:
  "total_trades (generate_report e) = length (filter is_SELL (trades e)) \<and>
   win_rate (generate_report e) =
     (if total_trades (generate_report e) > 0
      then fmul (fdiv (real (length (filter (\<lambda>t. is_SELL t \<and> get_pnl t > 0) (trades e))))
                  (real (total_trades (generate_report e)))) 100
      else 0) \<and>
   0 \<le> win_rate (generate_report e) \<and> win_rate (generate_report e) \<le> 100"
proof -
  let ?n = "length (filter is_SELL (trades e))"
  let ?w = "length (filter (\<lambda>t. is_SELL t \<and> get_pnl t > 0) (trades e))"
  have "filter (\<lambda>t. is_SELL t \<and> get_pnl t > 0) (trades e) =
      filter (\<lambda>t. get_pnl t > 0) (filter is_SELL (trades e))"
    by (simp add: conj_commute)
  then have le: "?w \<le> ?n" by (simp only: length_filter_le)
  have wr: "win_rate (generate_report e) =
      (if ?n > 0 then fmul (fdiv (real ?w) (real ?n)) 100 else 0)"
    by (simp add: generate_report_def Let_def wins_are_SELL)
  have tt: "total_trades (generate_report e) = ?n"
    by (simp add: generate_report_def Let_def)
  have "0 \<le> (if ?n > 0 then fmul (fdiv (real ?w) (real ?n)) 100 else 0) \<and>
      (if ?n > 0 then fmul (fdiv (real ?w) (real ?n)) 100 else 0) \<le> 100"
    using win_rate_bounds [OF le] by simp
  then show ?thesis using wr tt by simp
qed

subsection \<open>Flat prices and short inputs\<close>

text \<open>
  Claim C2. On a file of more than 14 ticks that all have the same price, the RSI of
  the specification is undefined on the first 14 ticks and exactly 50 on every later
  one, and the script, run with the indicators of the specification, returns a report
  with no trade, an empty journal and the initial balance as the final balance.
  Whatever the indicator functions are, the final balance of a report on such a file is
  the initial balance, and it has no trade as soon as all the defined values of the RSI
  column are one and the same number \<open>v\<close>.
\<close>

theorem flat_prices_rsi_50_no_trades:
  assumes "read path = Inr (Ticks ticks)" and "14 < length ticks"
    and "\<forall>t \<in> set ticks. price t = c"
  shows "computeRSI (map price ticks) 14 =
      replicate 14 None @ replicate (length ticks - 14) (Some 50) \<and>
    (\<forall>i. 14 \<le> i \<and> i < length ticks \<longrightarrow> computeRSI (map price ticks) 14 ! i = Some 50) \<and>
    (\<exists>rep. main read computeSMA computeRSI path = Inr rep \<and>
       total_trades rep = 0 \<and> final_balance rep = initial_balance rep \<and>
       report_trades rep = []) \<and>
    (main read SMA RSI path = Inr rep' \<longrightarrow> final_balance rep' = initial_balance rep') \<and>
    (main read SMA RSI path = Inr rep' \<and>
     (\<forall>x \<in> set (RSI (map price ticks) 14). x = None \<or> x = Some v) \<longrightarrow>
       total_trades rep' = 0)"
proof -
  let ?ps = "map price ticks"
  let ?rsi = "computeRSI ?ps 14"
  from assms(3) have ps: "?ps = replicate (length ticks) c"
    by (simp add: map_replicate_const [symmetric] cong: map_cong)
  have rsi: "?rsi = replicate 14 None @ replicate (length ticks - 14) (Some 50)"
    using computeRSI_flat [OF assms(2), of c] by (simp add: ps)
  have at: "\<forall>i. 14 \<le> i \<and> i < length ticks \<longrightarrow> ?rsi ! i = Some 50"
    unfolding rsi by (auto simp add: nth_append)
  let ?rs = "with_columns ticks (computeSMA ?ps 14) ?rsi"
  have "\<forall>r \<in> set ?rs. \<not> float_lt (rsi_14 r) 30"
  proof
    fix r assume "r \<in> set ?rs"
    then have "rsi_14 r \<in> set ?rsi" by (simp add: with_columns_cells)
    then have "rsi_14 r = None \<or> rsi_14 r = Some 50" unfolding rsi by auto
    then show "\<not> float_lt (rsi_14 r) 30" by auto
  qed
  then have "generate_report (self_of (run path ?rs)) = idle_report"
    by (rule no_entry_report)
  with main_spec_indicators [of read path ticks] assms(1)
  have m: "main read computeSMA computeRSI path = Inr idle_report" by simp
  have ex: "\<exists>rep. main read computeSMA computeRSI path = Inr rep \<and>
       total_trades rep = 0 \<and> final_balance rep = initial_balance rep \<and>
       report_trades rep = []"
    using m by (simp add: idle_report_def)
  have any: "final_balance rep' = initial_balance rep'"
    if "main read SMA RSI path = Inr rep'"
  proof -
    let ?xs = "with_columns ticks (SMA ?ps 14) (RSI ?ps 14)"
    from main_Inr_rows [of read SMA RSI path rep'] that assms(1)
    have rep': "rep' = generate_report (self_of (run path ?xs))"
      by auto
    have "\<forall>r \<in> set ?xs. price r = c"
      using with_columns_cells [of _ ticks "SMA ?ps 14" "RSI ?ps 14"] assms(3) by auto
    moreover have "flat_inv c (enter (loaded path ?xs))"
      by (simp add: flat_inv_def enter_def loaded_def BacktestEngine_def)
    ultimately have "flat_inv c (run path ?xs)"
      unfolding run_def by (rule flat_inv_run_loop [rotated])
    then show ?thesis
      by (simp add: rep' flat_inv_def generate_report_def self_of_def Let_def)
  qed
  have same: "total_trades rep' = 0"
    if m': "main read SMA RSI path = Inr rep'"
      and v: "\<forall>x \<in> set (RSI ?ps 14). x = None \<or> x = Some v"
  proof -
    let ?xs = "with_columns ticks (SMA ?ps 14) (RSI ?ps 14)"
    from main_Inr_rows [of read SMA RSI path rep'] m' assms(1)
    have rep': "rep' = generate_report (self_of (run path ?xs))"
      by auto
    have cells: "\<forall>r \<in> set ?xs. rsi_14 r = None \<or> rsi_14 r = Some v"
      using with_columns_cells [of _ ticks "SMA ?ps 14" "RSI ?ps 14"] v by blast
    show ?thesis
    proof (cases "v < 30")
      case True
      with cells have "\<forall>r \<in> set ?xs. \<not> float_gt (rsi_14 r) 70" by auto
      then have "filter is_SELL (trades (run path ?xs)) =
          filter is_SELL (trades (enter (loaded path ?xs)))"
        unfolding run_def by (rule no_exit_run_loop)
      then show ?thesis
        by (simp add: rep' generate_report_def self_of_def Let_def enter_def loaded_def
            BacktestEngine_def)
    next
      case False
      with cells have "\<forall>r \<in> set ?xs. \<not> float_lt (rsi_14 r) 30" by auto
      then have "generate_report (self_of (run path ?xs)) = idle_report"
        by (rule no_entry_report)
      then show ?thesis by (simp add: rep' idle_report_def)
    qed
  qed
  from rsi at ex any same show ?thesis by blast
qed

theorem flat_prices_rsi_50_no_trades_witness:
  "flat_read ''flat.csv'' = Inr (Ticks flat_ticks) \<and> 14 < length flat_ticks \<and>
   map price flat_ticks = replicate 16 100 \<and>
   computeRSI (map price flat_ticks) 14 = replicate 14 None @ [Some 50, Some 50] \<and>
   (\<exists>rep. main flat_read computeSMA computeRSI ''flat.csv'' = Inr rep \<and>
      total_trades rep = 0 \<and> final_balance rep = initial_balance rep \<and>
      report_trades rep = [])"
proof -
  have 1: "flat_read ''flat.csv'' = Inr (Ticks flat_ticks)" by (simp add: flat_read_def)
  have 2: "14 < length flat_ticks" by (simp add: flat_ticks_def)
  have 3: "\<forall>t \<in> set flat_ticks. price t = 100" by (simp add: flat_ticks_def)
  have 4: "map price flat_ticks = replicate 16 100"
    by (simp add: flat_ticks_def comp_def map_replicate_const)
  have 5: "replicate (length flat_ticks - 14) (Some (50::real)) = [Some 50, Some 50]"
    by (simp add: flat_ticks_def numeral_2_eq_2)
  from flat_prices_rsi_50_no_trades [of flat_read "''flat.csv''" flat_ticks 100, OF 1 2 3]
    1 2 4 5
  show ?thesis by simp
qed

text \<open>
  Claim C10. On a file of at most 14 ticks every RSI value of the specification is
  undefined, and the script, run with the indicators of the specification, returns the
  report with an empty journal, no trade, a win rate of 0 and the initial balance as
  the final balance.
\<close>

theorem short_input_no_trades:
  assumes "read path = Inr (Ticks ticks)" and "length ticks \<le> 14"
  shows "computeRSI (map price ticks) 14 = replicate (length ticks) None \<and>
    main read computeSMA computeRSI path =
      Inr \<lparr>initial_balance = INITIAL_BALANCE, final_balance = INITIAL_BALANCE,
           total_trades = 0, win_rate = 0, report_trades = []\<rparr>"
proof -
  let ?ps = "map price ticks"
  let ?rsi = "computeRSI ?ps 14"
  have rsi: "?rsi = replicate (length ticks) None"
    using assms(2) by (simp add: computeRSI_def)
  let ?rs = "with_columns ticks (computeSMA ?ps 14) ?rsi"
  have "\<forall>r \<in> set ?rs. \<not> float_lt (rsi_14 r) 30"
  proof
    fix r assume "r \<in> set ?rs"
    then have "rsi_14 r \<in> set ?rsi" by (simp add: with_columns_cells)
    then have "rsi_14 r = None" unfolding rsi by auto
    then show "\<not> float_lt (rsi_14 r) 30" by simp
  qed
  then have "generate_report (self_of (run path ?rs)) = idle_report"
    by (rule no_entry_report)
  with main_spec_indicators [of read path ticks] assms(1)
  have "main read computeSMA computeRSI path = Inr idle_report" by simp
  with rsi show ?thesis by (simp add: idle_report_def)
qed

theorem short_input_no_trades_witness:
  "short_read ''short.csv'' = Inr (Ticks (take 3 example_ticks)) \<and>
   length (take 3 example_ticks) \<le> 14 \<and>
   computeRSI (map price (take 3 example_ticks)) 14 = [None, None, None] \<and>
   main short_read computeSMA computeRSI ''short.csv'' =
      Inr \<lparr>initial_balance = INITIAL_BALANCE, final_balance = INITIAL_BALANCE,
           total_trades = 0, win_rate = 0, report_trades = []\<rparr>"
proof -
  have 1: "short_read ''short.csv'' = Inr (Ticks (take 3 example_ticks))"
    by (simp add: short_read_def)
  have 2: "length (take 3 example_ticks) \<le> 14" by simp
  have 3: "replicate (length (take 3 example_ticks)) (None :: real option) =
      [None, None, None]"
    by (simp add: example_ticks_def numeral_3_eq_3)
  from short_input_no_trades [of short_read "''short.csv''" "take 3 example_ticks", OF 1 2]
    1 2 3
  show ?thesis by simp
qed

subsection \<open>A file that cannot be loaded\<close>

text \<open>
  Claim C7 as it is stated does not hold of the source. When the file cannot be read,
  \<open>load_data\<close> does not hand a \<open>DataSourceError\<close> to its caller, it ends the process with
  \<open>sys.exit(1)\<close>; and a file that has no column \<open>price\<close> is loaded without an error:
  the failure only shows in \<open>add_indicators\<close>, as a \<open>KeyError\<close>.
\<close>

theorem load_failure_is_not_DataSourceError:
  "failing_read ''missing.csv'' = Inl (Raised ''FileNotFoundError'') \<and>
   load_data failing_read (BacktestEngine ''missing.csv'') =
     Inl (SystemExit 1, (INITIAL_BALANCE, [])) \<and>
   main failing_read computeSMA computeRSI ''missing.csv'' =
     Inl (SystemExit 1, (INITIAL_BALANCE, [])) \<and>
   SystemExit 1 \<noteq> DataSourceError \<and>
   load_data noprice_read (BacktestEngine ''noprice.csv'') =
     Inr ((BacktestEngine ''noprice.csv'')\<lparr>df := Some (NoPrice [0, 1, 2])\<rparr>) \<and>
   main noprice_read computeSMA computeRSI ''noprice.csv'' =
     Inl (KeyError ''price'', (INITIAL_BALANCE, [])) \<and>
   KeyError ''price'' \<noteq> DataSourceError"
  by (simp add: failing_read_def noprice_read_def load_data_def add_indicators_def
      BacktestEngine_def main_def DataSourceError_def account_of_def)

text \<open>
  Claim C7, amended. Whenever reading or parsing the file raises an exception inside
  \<open>load_data\<close>, the caller gets \<open>SystemExit\<close> with status 1 if the exception derives
  from \<open>Exception\<close> and the exception itself if it does not; a frame that has no
  column \<open>price\<close>, or one that is not numeric, passes \<open>load_data\<close> and fails in
  \<open>add_indicators\<close> with \<open>KeyError\<close> or with the error of the indicator library. In
  none of these cases is the exception a \<open>DataSourceError\<close>, and in all of them the
  script returns no report, no step of the simulation has run, and the balance and the
  journal are those of the constructor; a report is returned only for a frame with a
  numeric column \<open>price\<close>. \<open>load_data\<close> never changes the balance or the journal,
  whether it fails or not, and \<open>run_simulation\<close> on an engine that has no frame raises
  \<open>AttributeError\<close> before any step.
\<close>

theorem load_failure_stops_before_simulation:
  "(read (data_path e) = Inl ex \<longrightarrow>
      load_data read e =
        Inl (if is_Exception ex then SystemExit 1 else ex, (balance e, trades e))) \<and>
   (read path = Inl ex \<longrightarrow>
      main read SMA RSI path =
        Inl (if is_Exception ex then SystemExit 1 else ex, (INITIAL_BALANCE, []))) \<and>
   (read path = Inr (NoPrice idx) \<longrightarrow>
      main read SMA RSI path = Inl (KeyError ''price'', (INITIAL_BALANCE, []))) \<and>
   (read path = Inr (TextPrice cells) \<longrightarrow>
      main read SMA RSI path = Inl (TypeError, (INITIAL_BALANCE, []))) \<and>
   (main read SMA RSI path = Inl (ex', acc) \<longrightarrow>
      acc = (INITIAL_BALANCE, []) \<and> ex' \<noteq> DataSourceError) \<and>
   (main read SMA RSI path = Inr rep \<longrightarrow>
      (\<exists>fr ticks. read path = Inr fr \<and> frame_ticks fr = Inr ticks)) \<and>
   (load_data read e = Inr e' \<longrightarrow> balance e' = balance e \<and> trades e' = trades e) \<and>
   (df e = None \<longrightarrow> run_simulation e = Inl (AttributeError, (balance e, trades e)))"
proof -
  have 0: "read (data_path e) = Inl ex \<longrightarrow>
      load_data read e =
        Inl (if is_Exception ex then SystemExit 1 else ex, (balance e, trades e))"
    by (cases "is_Exception ex") (simp_all add: load_data_def account_of_def)
  have 1: "read path = Inl ex \<longrightarrow>
      main read SMA RSI path =
        Inl (if is_Exception ex then SystemExit 1 else ex, (INITIAL_BALANCE, []))"
    by (cases "is_Exception ex")
      (simp_all add: load_data_def main_def account_of_def BacktestEngine_def)
  have 2: "read path = Inr (NoPrice idx) \<longrightarrow>
      main read SMA RSI path = Inl (KeyError ''price'', (INITIAL_BALANCE, []))"
    by (simp add: load_data_def main_def add_indicators_def account_of_def
        BacktestEngine_def)
  have 3: "read path = Inr (TextPrice cells) \<longrightarrow>
      main read SMA RSI path = Inl (TypeError, (INITIAL_BALANCE, []))"
    by (simp add: load_data_def main_def add_indicators_def account_of_def
        BacktestEngine_def)
  have 4: "main read SMA RSI path = Inl (ex', acc) \<longrightarrow>
      acc = (INITIAL_BALANCE, []) \<and> ex' \<noteq> DataSourceError"
    using main_Inl [of read SMA RSI path ex' acc] by blast
  have 5: "main read SMA RSI path = Inr rep \<longrightarrow>
      (\<exists>fr ticks. read path = Inr fr \<and> frame_ticks fr = Inr ticks)"
    using main_Inr_rows [of read SMA RSI path rep] by blast
  have 6: "load_data read e = Inr e' \<longrightarrow> balance e' = balance e \<and> trades e' = trades e"
    by (auto simp add: load_data_def split: sum.splits if_splits)
  have 7: "df e = None \<longrightarrow> run_simulation e = Inl (AttributeError, (balance e, trades e))"
    by (simp add: run_simulation_def account_of_def)
  from 0 1 2 3 4 5 6 7 show ?thesis by (simp only: simp_thms)
qed

theorem load_failure_stops_before_simulation_witness:
  "failing_read ''missing.csv'' = Inl (Raised ''FileNotFoundError'') \<and>
   is_Exception (Raised ''FileNotFoundError'') \<and>
   load_data failing_read (loaded ''missing.csv'' example_rows) =
     Inl (SystemExit 1, (INITIAL_BALANCE, [])) \<and>
   main failing_read example_SMA example_RSI ''missing.csv'' =
     Inl (SystemExit 1, (INITIAL_BALANCE, [])) \<and>
   interrupted_read ''ticks.csv'' = Inl KeyboardInterrupt \<and>
   \<not> is_Exception KeyboardInterrupt \<and>
   main interrupted_read example_SMA example_RSI ''ticks.csv'' =
     Inl (KeyboardInterrupt, (INITIAL_BALANCE, [])) \<and>
   noprice_read ''noprice.csv'' = Inr (NoPrice [0, 1, 2]) \<and>
   main noprice_read example_SMA example_RSI ''noprice.csv'' =
     Inl (KeyError ''price'', (INITIAL_BALANCE, [])) \<and>
   textprice_read ''text.csv'' = Inr (TextPrice [(0, ''n/a''), (1, ''n/a'')]) \<and>
   main textprice_read example_SMA example_RSI ''text.csv'' =
     Inl (TypeError, (INITIAL_BALANCE, [])) \<and>
   main example_read example_SMA example_RSI ''ticks.csv'' = Inr example_report \<and>
   example_read ''ticks.csv'' = Inr (Ticks example_ticks) \<and>
   frame_ticks (Ticks example_ticks) = Inr example_ticks \<and>
   df (BacktestEngine ''missing.csv'') = None \<and>
   run_simulation (BacktestEngine ''missing.csv'') =
     Inl (AttributeError, (INITIAL_BALANCE, []))"
proof -
  note T = load_failure_stops_before_simulation
  have r: "failing_read ''missing.csv'' = Inl (Raised ''FileNotFoundError'')"
    "interrupted_read ''ticks.csv'' = Inl KeyboardInterrupt"
    "noprice_read ''noprice.csv'' = Inr (NoPrice [0, 1, 2])"
    "textprice_read ''text.csv'' = Inr (TextPrice [(0, ''n/a''), (1, ''n/a'')])"
    "example_read ''ticks.csv'' = Inr (Ticks example_ticks)"
    by (simp_all add: failing_read_def interrupted_read_def noprice_read_def
        textprice_read_def example_read_def)
  have a: "balance (loaded ''missing.csv'' example_rows) = INITIAL_BALANCE"
    "trades (loaded ''missing.csv'' example_rows) = []"
    "data_path (loaded ''missing.csv'' example_rows) = ''missing.csv''"
    "df (BacktestEngine ''missing.csv'') = None"
    "balance (BacktestEngine ''missing.csv'') = INITIAL_BALANCE"
    "trades (BacktestEngine ''missing.csv'') = []"
    by (simp_all add: loaded_def BacktestEngine_def)
  have 1: "load_data failing_read (loaded ''missing.csv'' example_rows) =
      Inl (SystemExit 1, (INITIAL_BALANCE, []))"
    using T [of failing_read "loaded ''missing.csv'' example_rows"
        "Raised ''FileNotFoundError''" "''missing.csv''" example_SMA example_RSI
        "[]" "[]" AttributeError "(0, [])" example_report "BacktestEngine ''missing.csv''"]
      r(1) a(1-3)
    by simp
  have 2: "main failing_read example_SMA example_RSI ''missing.csv'' =
      Inl (SystemExit 1, (INITIAL_BALANCE, []))"
    using T [of failing_read "loaded ''missing.csv'' example_rows"
        "Raised ''FileNotFoundError''" "''missing.csv''" example_SMA example_RSI
        "[]" "[]" AttributeError "(0, [])" example_report "BacktestEngine ''missing.csv''"]
      r(1)
    by simp
  have 3: "main interrupted_read example_SMA example_RSI ''ticks.csv'' =
      Inl (KeyboardInterrupt, (INITIAL_BALANCE, []))"
    using T [of interrupted_read "loaded ''missing.csv'' example_rows"
        KeyboardInterrupt "''ticks.csv''" example_SMA example_RSI
        "[]" "[]" AttributeError "(0, [])" example_report "BacktestEngine ''missing.csv''"]
      r(2)
    by simp
  have 4: "main noprice_read example_SMA example_RSI ''noprice.csv'' =
      Inl (KeyError ''price'', (INITIAL_BALANCE, []))"
    using T [of noprice_read "loaded ''missing.csv'' example_rows"
        KeyboardInterrupt "''noprice.csv''" example_SMA example_RSI
        "[0, 1, 2]" "[]" AttributeError "(0, [])" example_report
        "BacktestEngine ''missing.csv''"]
      r(3)
    by simp
  have 5: "main textprice_read example_SMA example_RSI ''text.csv'' =
      Inl (TypeError, (INITIAL_BALANCE, []))"
    using T [of textprice_read "loaded ''missing.csv'' example_rows"
        KeyboardInterrupt "''text.csv''" example_SMA example_RSI
        "[]" "[(0, ''n/a''), (1, ''n/a'')]" AttributeError "(0, [])" example_report
        "BacktestEngine ''missing.csv''"]
      r(4)
    by simp
  have 6: "run_simulation (BacktestEngine ''missing.csv'') =
      Inl (AttributeError, (INITIAL_BALANCE, []))"
    using T [of failing_read "BacktestEngine ''missing.csv''"
        KeyboardInterrupt "''missing.csv''" example_SMA example_RSI
        "[]" "[]" AttributeError "(0, [])" example_report "BacktestEngine ''missing.csv''"]
      a(4-6)
    by simp
  have 7: "is_Exception (Raised ''FileNotFoundError'')" "\<not> is_Exception KeyboardInterrupt"
    "frame_ticks (Ticks example_ticks) = Inr example_ticks"
    by simp_all
  from r a(4) 1 2 3 4 5 6 7 example_main show ?thesis by (simp only: simp_thms)
qed

end
